theory Spec2Isabelle
  imports Complex_Main "HOL-Library.Word"
begin

section \<open>Audio capture and voice-activity segmentation (core/audio\_input.py)\<close>

text \<open>
  A shallow embedding of \<^verbatim>\<open>AudioConfig\<close>, \<^verbatim>\<open>VoiceActivityDetector\<close> and
  \<^verbatim>\<open>AudioInput\<close>. Python floats are modelled as \<^typ>\<open>real\<close> (rounding is abstracted
  away); the values numpy can produce beyond the finite ones (\<^verbatim>\<open>nan\<close>, \<^verbatim>\<open>inf\<close>)
  are kept explicit in \<open>np_float\<close>. Python ints are \<^typ>\<open>int\<close>, byte strings are lists
  of \<^typ>\<open>8 word\<close>, and numpy's \<^verbatim>\<open>int16\<close> arithmetic is \<^typ>\<open>16 word\<close> arithmetic,
  which wraps around as \<^verbatim>\<open>np.square\<close> does on an \<^verbatim>\<open>int16\<close> array.
\<close>

subsection \<open>Data model\<close>

type_synonym bytes = "8 word list"

datatype py_exception =
  ValueError | ZeroDivisionError | AttributeError | OSError | VadError

record audio_config =
  sample_rate :: int
  channels :: int
  format :: string
  chunk_size :: int
  silence_threshold :: real
  dynamic_silence :: bool
  min_speech_duration :: real
  speech_pad_start :: real
  speech_pad_end :: real
  device_index :: "int option"
  timeout :: real
  vad_enabled :: bool
  vad_mode :: int
  vad_frame_ms :: int

text \<open>The defaults of the \<^verbatim>\<open>AudioConfig\<close> dataclass.\<close>

definition default_config :: audio_config where
  "default_config =
     \<lparr> sample_rate = 16000, channels = 1, format = ''int16'', chunk_size = 1024,
       silence_threshold = 300, dynamic_silence = True, min_speech_duration = 5 / 100,
       speech_pad_start = 1 / 10, speech_pad_end = 2 / 10, device_index = None,
       timeout = 2, vad_enabled = True, vad_mode = 1, vad_frame_ms = 30 \<rparr>"

text \<open>A numpy float: not-a-number, a finite value, or plus infinity.\<close>

datatype np_float = NaN | Fin real | PInf

text \<open>
  The detector object. \<open>webrtc_vad\<close> is \<^verbatim>\<open>self._vad\<close>: the external WebRTC detector when
  the module could be imported (a function of the frame and the sample rate that answers
  or raises), \<open>None\<close> otherwise. \<open>float32_mean_square\<close> stands for what numpy computes
  as \<^verbatim>\<open>np.mean(np.square(np.frombuffer(frame, dtype=np.float32)))\<close> on a non-empty
  buffer of whole samples; it is a parameter, since the IEEE decoding is numpy's.
\<close>

record voice_activity_detector =
  config :: audio_config
  energy_threshold :: real
  dynamic_threshold :: bool
  webrtc_vad :: "(bytes \<Rightarrow> int \<Rightarrow> py_exception + bool) option"
  float32_mean_square :: "bytes \<Rightarrow> np_float"

subsection \<open>numpy operations used by the energy strategy\<close>

text \<open>\<^verbatim>\<open>np.frombuffer(frame, dtype=np.int16)\<close>: little-endian pairs of bytes.\<close>

fun int16_samples :: "bytes \<Rightarrow> 16 word list" where
  "int16_samples (lo # hi # rest) = word_cat hi lo # int16_samples rest"
| "int16_samples _ = []"

definition frombuffer_int16 :: "bytes \<Rightarrow> py_exception + 16 word list" where
  "frombuffer_int16 b =
     (if length b mod 2 \<noteq> 0 then Inl ValueError else Inr (int16_samples b))"

text \<open>\<^verbatim>\<open>np.square\<close> on an \<^verbatim>\<open>int16\<close> array stays in \<^verbatim>\<open>int16\<close> and wraps.\<close>

definition np_square_int16 :: "16 word list \<Rightarrow> 16 word list" where
  "np_square_int16 ws = map (\<lambda>w. w * w) ws"

text \<open>\<^verbatim>\<open>np.mean\<close> of an \<^verbatim>\<open>int16\<close> array: a float, \<^verbatim>\<open>nan\<close> on the empty array.\<close>

definition np_mean_int16 :: "16 word list \<Rightarrow> np_float" where
  "np_mean_int16 ws =
     (if ws = [] then NaN
      else Fin (real_of_int (sum_list (map sint ws)) / real (length ws)))"

fun np_sqrt :: "np_float \<Rightarrow> np_float" where
  "np_sqrt NaN = NaN"
| "np_sqrt (Fin x) = (if x < 0 then NaN else Fin (sqrt x))"
| "np_sqrt PInf = PInf"

text \<open>Comparisons of a numpy float with a finite float; every one with \<^verbatim>\<open>nan\<close> is false.\<close>

fun np_less :: "np_float \<Rightarrow> real \<Rightarrow> bool" where
  "np_less NaN t = False"
| "np_less (Fin x) t = (x < t)"
| "np_less PInf t = False"

fun np_greater :: "np_float \<Rightarrow> real \<Rightarrow> bool" where
  "np_greater NaN t = False"
| "np_greater (Fin x) t = (x > t)"
| "np_greater PInf t = True"

text \<open>
  The first two lines of the \<^verbatim>\<open>try\<close> block of \<^verbatim>\<open>_is_speech_energy\<close>, without the
  square root: \<^verbatim>\<open>np.frombuffer\<close> raises \<^verbatim>\<open>ValueError\<close> when the buffer is not a whole
  number of samples.
\<close>

definition mean_square :: "voice_activity_detector \<Rightarrow> bytes \<Rightarrow> py_exception + np_float" where
  "mean_square d audio_frame =
     (if format (config d) = ''float32'' then
        (if length audio_frame mod 4 \<noteq> 0 then Inl ValueError
         else if audio_frame = [] then Inr NaN
         else Inr (float32_mean_square d audio_frame))
      else
        (case frombuffer_int16 audio_frame of
           Inl e \<Rightarrow> Inl e
         | Inr audio_array \<Rightarrow> Inr (np_mean_int16 (np_square_int16 audio_array))))"

definition frame_energy :: "voice_activity_detector \<Rightarrow> bytes \<Rightarrow> py_exception + np_float" where
  "frame_energy d audio_frame =
     (case mean_square d audio_frame of Inl e \<Rightarrow> Inl e | Inr m \<Rightarrow> Inr (np_sqrt m))"

subsection \<open>VoiceActivityDetector\<close>

definition VoiceActivityDetector ::
  "audio_config \<Rightarrow> (bytes \<Rightarrow> int \<Rightarrow> py_exception + bool) option \<Rightarrow> (bytes \<Rightarrow> np_float)
     \<Rightarrow> voice_activity_detector" where
  "VoiceActivityDetector cfg webrtc f32 =
     \<lparr> config = cfg, energy_threshold = silence_threshold cfg,
       dynamic_threshold = dynamic_silence cfg, webrtc_vad = webrtc, float32_mean_square = f32 \<rparr>"

definition update_energy_threshold ::
  "voice_activity_detector \<Rightarrow> np_float \<Rightarrow> voice_activity_detector" where
  "update_energy_threshold d current_energy =
     (if np_less current_energy (energy_threshold d) then
        (case current_energy of
           Fin e \<Rightarrow> d\<lparr>energy_threshold :=
                        (95 / 100) * energy_threshold d + (5 / 100) * ((15 / 10) * e)\<rparr>
         | _ \<Rightarrow> d)
      else d)"

text \<open>The body of the \<^verbatim>\<open>try\<close> block of \<^verbatim>\<open>_is_speech_energy\<close>.\<close>

definition is_speech_energy_body ::
  "voice_activity_detector \<Rightarrow> bytes \<Rightarrow> py_exception + (bool \<times> voice_activity_detector)" where
  "is_speech_energy_body d audio_frame =
     (case frame_energy d audio_frame of
        Inl e \<Rightarrow> Inl e
      | Inr energy \<Rightarrow>
          (let d' = (if dynamic_threshold d then update_energy_threshold d energy else d)
           in Inr (np_greater energy (energy_threshold d'), d')))"

text \<open>\<^verbatim>\<open>_is_speech_energy\<close>: any exception of the body is logged and answered \<^verbatim>\<open>False\<close>.\<close>

definition is_speech_energy ::
  "voice_activity_detector \<Rightarrow> bytes \<Rightarrow> py_exception + (bool \<times> voice_activity_detector)" where
  "is_speech_energy d audio_frame =
     (case is_speech_energy_body d audio_frame of
        Inl e \<Rightarrow> Inr (False, d)
      | Inr r \<Rightarrow> Inr r)"

text \<open>
  \<^verbatim>\<open>is_speech\<close>: the external detector first when there is one; when it raises, and
  when there is none, the energy strategy.
\<close>

definition is_speech ::
  "voice_activity_detector \<Rightarrow> bytes \<Rightarrow> int option
     \<Rightarrow> py_exception + (bool \<times> voice_activity_detector)" where
  "is_speech d audio_frame rate =
     (let sr = (case rate of None \<Rightarrow> sample_rate (config d) | Some r \<Rightarrow> r) in
      case webrtc_vad d of
        Some detector \<Rightarrow>
          (case detector audio_frame sr of
             Inr b \<Rightarrow> Inr (b, d)
           | Inl e \<Rightarrow> is_speech_energy d audio_frame)
      | None \<Rightarrow> is_speech_energy d audio_frame)"

subsection \<open>AudioInput: the session and the audio driver\<close>

text \<open>
  The PyAudio library is outside the program. Its objects are handles (numbers), every
  call into it is recorded in the session's \<open>calls\<close>, and a \<open>driver\<close> says how the
  library answers: what \<^verbatim>\<open>pyaudio.PyAudio()\<close> and \<^verbatim>\<open>pa.open(...)\<close> return or raise, and
  which of the other calls raise.
\<close>

datatype driver_call =
  PyAudio_new | Pa_open nat | Stream_start nat | Stream_stop nat | Stream_close nat
  | Pa_terminate nat

record driver =
  new_instance :: "py_exception + nat"
  open_stream :: "nat \<Rightarrow> py_exception + nat"
  raises :: "driver_call \<Rightarrow> bool"

text \<open>
  \<open>pyaudio\<close> tells whether the module was imported (\<^verbatim>\<open>self.pyaudio\<close> is not \<^verbatim>\<open>None\<close>).
  \<open>pa_instance\<close> is \<open>None\<close> while the attribute does not exist (it is first assigned
  in \<^verbatim>\<open>start_stream\<close>), \<open>Some None\<close> when it holds \<^verbatim>\<open>None\<close>, and \<open>Some (Some p)\<close> when
  it holds the PyAudio instance \<open>p\<close>.
\<close>

record audio_input =
  input_config :: audio_config
  vad :: voice_activity_detector
  is_recording :: bool
  stop_requested :: bool
  stream :: "nat option"
  pyaudio :: bool
  pa_instance :: "nat option option"
  buffer :: "bytes list"
  calls :: "driver_call list"

definition AudioInput :: "audio_config \<Rightarrow> voice_activity_detector \<Rightarrow> bool \<Rightarrow> audio_input" where
  "AudioInput cfg detector imported =
     \<lparr> input_config = cfg, vad = detector, is_recording = False, stop_requested = False,
       stream = None, pyaudio = imported, pa_instance = None, buffer = [], calls = [] \<rparr>"

definition driver_call :: "driver \<Rightarrow> driver_call \<Rightarrow> audio_input \<Rightarrow> (py_exception + unit) \<times> audio_input" where
  "driver_call drv c s =
     ((if raises drv c then Inl OSError else Inr ()), s\<lparr>calls := calls s @ [c]\<rparr>)"

text \<open>
  \<^verbatim>\<open>stop_stream\<close>. Each block is a \<^verbatim>\<open>try / except Exception / finally\<close>: an exception
  of \<^verbatim>\<open>stream.stop_stream()\<close> skips \<^verbatim>\<open>stream.close()\<close>, and in every case the field is
  cleared.
\<close>

definition stop_stream :: "driver \<Rightarrow> audio_input \<Rightarrow> py_exception + audio_input" where
  "stop_stream drv s =
     (let s1 = s\<lparr>stop_requested := True, is_recording := False\<rparr>;
          s2 = (case stream s1 of
                  None \<Rightarrow> s1
                | Some h \<Rightarrow>
                    (case driver_call drv (Stream_stop h) s1 of
                       (Inl e, t) \<Rightarrow> t\<lparr>stream := None\<rparr>
                     | (Inr u, t) \<Rightarrow>
                         (case driver_call drv (Stream_close h) t of
                            (Inl e, t') \<Rightarrow> t'\<lparr>stream := None\<rparr>
                          | (Inr u', t') \<Rightarrow> t'\<lparr>stream := None\<rparr>)));
          s3 = (case pa_instance s2 of
                  Some (Some p) \<Rightarrow>
                    (case driver_call drv (Pa_terminate p) s2 of
                       (Inl e, t) \<Rightarrow> t\<lparr>pa_instance := Some None\<rparr>
                     | (Inr u, t) \<Rightarrow> t\<lparr>pa_instance := Some None\<rparr>)
                | _ \<Rightarrow> s2)
      in Inr s3)"

text \<open>
  The \<^verbatim>\<open>except\<close> block of \<^verbatim>\<open>start_stream\<close>. It tests \<^verbatim>\<open>hasattr(self, 'pa_instance')\<close>
  only, so a \<^verbatim>\<open>pa_instance\<close> that holds \<^verbatim>\<open>None\<close> raises \<^verbatim>\<open>AttributeError\<close> from inside
  the handler, and so does a \<^verbatim>\<open>terminate()\<close> that raises.
\<close>

definition start_stream_except ::
  "driver \<Rightarrow> audio_input \<Rightarrow> (py_exception + bool) \<times> audio_input" where
  "start_stream_except drv s =
     (case pa_instance s of
        None \<Rightarrow> (Inr False, s\<lparr>stream := None\<rparr>)
      | Some None \<Rightarrow> (Inl AttributeError, s)
      | Some (Some p) \<Rightarrow>
          (case driver_call drv (Pa_terminate p) s of
             (Inl e, t) \<Rightarrow> (Inl e, t)
           | (Inr u, t) \<Rightarrow> (Inr False, t\<lparr>stream := None\<rparr>)))"

definition start_stream :: "driver \<Rightarrow> audio_input \<Rightarrow> (py_exception + bool) \<times> audio_input" where
  "start_stream drv s =
     (if \<not> pyaudio s then (Inr False, s)
      else
        (case (if stream s \<noteq> None then stop_stream drv s else Inr s) of
           Inl e \<Rightarrow> (Inl e, s)
         | Inr s0 \<Rightarrow>
             (let s1 = s0\<lparr>calls := calls s0 @ [PyAudio_new]\<rparr> in
              case new_instance drv of
                Inl e \<Rightarrow> start_stream_except drv s1
              | Inr pa \<Rightarrow>
                  (let s2 = s1\<lparr>pa_instance := Some (Some pa),
                               calls := calls s1 @ [Pa_open pa]\<rparr> in
                   case open_stream drv pa of
                     Inl e \<Rightarrow> start_stream_except drv s2
                   | Inr h \<Rightarrow>
                       (let s3 = s2\<lparr>stream := Some h, is_recording := True,
                                    stop_requested := False\<rparr> in
                        case driver_call drv (Stream_start h) s3 of
                          (Inl e, t) \<Rightarrow> start_stream_except drv t
                        | (Inr u, t) \<Rightarrow> (Inr True, t))))))"

text \<open>\<^verbatim>\<open>_audio_callback\<close>, called by the driver with each new frame in callback mode.\<close>

datatype pa_flag = paContinue | paComplete

definition audio_callback :: "audio_input \<Rightarrow> bytes \<Rightarrow> py_exception + (pa_flag \<times> audio_input)" where
  "audio_callback s in_data =
     (if stop_requested s then Inr (paComplete, s)
      else
        (case is_speech (vad s) in_data None of
           Inl e \<Rightarrow> Inl e
         | Inr (speech, d) \<Rightarrow>
             (let s1 = s\<lparr>vad := d\<rparr> in
              if speech \<or> is_recording s1
              then Inr (paContinue, s1\<lparr>buffer := buffer s1 @ [in_data]\<rparr>)
              else Inr (paContinue, s1))))"

subsection \<open>Capture\<close>

text \<open>Python's \<^verbatim>\<open>int(x)\<close> on a float truncates towards zero.\<close>

definition py_int :: "real \<Rightarrow> int" where
  "py_int x = (if 0 \<le> x then \<lfloor>x\<rfloor> else \<lceil>x\<rceil>)"

text \<open>The slice \<^verbatim>\<open>xs[i:]\<close>; a negative \<open>i\<close> counts from the end.\<close>

definition slice_from :: "'a list \<Rightarrow> int \<Rightarrow> 'a list" where
  "slice_from xs i =
     (if i < 0 then drop (nat (max 0 (int (length xs) + i))) xs else drop (nat i) xs)"

text \<open>The test \<^verbatim>\<open>max_frames and n >= max_frames\<close>: \<^verbatim>\<open>None\<close> and \<^verbatim>\<open>0\<close> are false.\<close>

definition frame_limit_reached :: "int option \<Rightarrow> nat \<Rightarrow> bool" where
  "frame_limit_reached max_frames n =
     (case max_frames of None \<Rightarrow> False | Some m \<Rightarrow> m \<noteq> 0 \<and> m \<le> int n)"

text \<open>
  \<^verbatim>\<open>silence_frames * chunk_size / sample_rate\<close>: true division of two ints, which raises
  on a zero divisor.
\<close>

definition silence_secs :: "audio_config \<Rightarrow> int \<Rightarrow> py_exception + real" where
  "silence_secs cfg n =
     (if sample_rate cfg = 0 then Inl ZeroDivisionError
      else Inr (real_of_int (n * chunk_size cfg) / real_of_int (sample_rate cfg)))"

text \<open>How one pass through a loop body ends.\<close>

datatype outcome = Continue | Break | Caught py_exception

paragraph \<open>Manual mode (\<^verbatim>\<open>_capture_manual\<close>)\<close>

record manual_state =
  frames :: "bytes list"
  speech_detected :: bool
  silence_frames :: int
  detector :: voice_activity_detector

text \<open>
  The number of frames of lead-in,
  \<^verbatim>\<open>int(speech_pad_start * sample_rate / chunk_size)\<close>.
\<close>

definition pad_frames :: "audio_config \<Rightarrow> py_exception + int" where
  "pad_frames cfg =
     (if chunk_size cfg = 0 then Inl ZeroDivisionError
      else Inr (py_int (speech_pad_start cfg * real_of_int (sample_rate cfg)
                          / real_of_int (chunk_size cfg))))"

text \<open>
  One pass through the \<^verbatim>\<open>try\<close> block, given what \<^verbatim>\<open>stream.read\<close> returned or raised.
  An exception anywhere in the block is caught and leaves the loop, with the variables as
  they were when it was raised.
\<close>

definition manual_body ::
  "audio_config \<Rightarrow> int option \<Rightarrow> manual_state \<Rightarrow> py_exception + bytes
     \<Rightarrow> outcome \<times> manual_state" where
  "manual_body cfg max_frames st rd =
     (case rd of
        Inl e \<Rightarrow> (Caught e, st)
      | Inr data \<Rightarrow>
          (case is_speech (detector st) data None of
             Inl e \<Rightarrow> (Caught e, st)
           | Inr (speech, d) \<Rightarrow>
               (let st1 = st\<lparr>detector := d\<rparr>;
                    onset = (if \<not> speech_detected st1 \<and> speech then
                               (case pad_frames cfg of
                                  Inl e \<Rightarrow> (Caught e, st1\<lparr>speech_detected := True\<rparr>)
                                | Inr n \<Rightarrow>
                                    (Continue,
                                     st1\<lparr>speech_detected := True,
                                         frames := frames st1 @ slice_from (frames st1) (- n)\<rparr>))
                             else (Continue, st1))
                in case onset of
                     (Continue, st2) \<Rightarrow>
                       (let tracked =
                              (if speech_detected st2 then
                                 (let st3 = st2\<lparr>frames := frames st2 @ [data],
                                               silence_frames :=
                                                 (if \<not> speech then silence_frames st2 + 1 else 0)\<rparr>
                                  in case silence_secs cfg (silence_frames st3) of
                                       Inl e \<Rightarrow> (Caught e, st3)
                                     | Inr secs \<Rightarrow>
                                         (if secs > speech_pad_end cfg then (Break, st3)
                                          else (Continue, st3)))
                               else (Continue, st2))
                        in case tracked of
                             (Continue, st4) \<Rightarrow>
                               (if frame_limit_reached max_frames (length (frames st4))
                                then (Break, st4) else (Continue, st4))
                           | r \<Rightarrow> r)
                   | r \<Rightarrow> r)))"

text \<open>
  The \<^verbatim>\<open>while True\<close> loop. The device and the clock are the input: one pair per pass,
  the time elapsed since the start (\<^verbatim>\<open>time.time() - start_time\<close>) at the timeout test
  and what \<^verbatim>\<open>stream.read\<close> gives in that pass. \<open>None\<close> means that the loop is still
  running when the given passes are used up.
\<close>

fun capture_manual_loop ::
  "audio_config \<Rightarrow> int option \<Rightarrow> manual_state \<Rightarrow> (real \<times> (py_exception + bytes)) list
     \<Rightarrow> manual_state option" where
  "capture_manual_loop cfg max_frames st [] = None"
| "capture_manual_loop cfg max_frames st ((elapsed, rd) # rest) =
     (if elapsed > timeout cfg then Some st
      else
        (case manual_body cfg max_frames st rd of
           (Continue, st') \<Rightarrow> capture_manual_loop cfg max_frames st' rest
         | (r, st') \<Rightarrow> Some st'))"

definition join_frames :: "bytes list \<Rightarrow> bytes option" where
  "join_frames fs = (if fs = [] then None else Some (concat fs))"

definition capture_manual ::
  "audio_input \<Rightarrow> int option \<Rightarrow> bool \<Rightarrow> (real \<times> (py_exception + bytes)) list
     \<Rightarrow> ((py_exception + bytes option) \<times> audio_input) option" where
  "capture_manual s max_frames wait_for_speech passes =
     (case capture_manual_loop (input_config s) max_frames
             \<lparr> frames = [], speech_detected = \<not> wait_for_speech, silence_frames = 0,
               detector = vad s \<rparr> passes of
        None \<Rightarrow> None
      | Some st \<Rightarrow> Some (Inr (join_frames (frames st)), s\<lparr>vad := detector st\<rparr>))"

paragraph \<open>Callback mode (\<^verbatim>\<open>_capture_with_vad\<close>)\<close>

text \<open>
  In callback mode the driver thread runs \<^verbatim>\<open>_audio_callback\<close> while the caller's thread
  polls the buffer. Both take \<^verbatim>\<open>buffer_lock\<close> around their access to the buffer, so an
  execution is modelled as an interleaving of two kinds of events: a callback with a new
  frame, and one pass of the polling loop at a given elapsed time.
\<close>

datatype event = Callback bytes | Poll real

record vad_loop_state =
  speech_detected_v :: bool
  silence_frames_v :: int
  session :: audio_input

text \<open>The part of one pass that runs under the lock.\<close>

definition poll_body :: "int option \<Rightarrow> vad_loop_state \<Rightarrow> outcome \<times> vad_loop_state" where
  "poll_body max_frames st =
     (let s = session st; cfg = input_config s in
      if frame_limit_reached max_frames (length (buffer s)) then (Break, st)
      else
        (let detect =
               (if \<not> speech_detected_v st \<and> length (buffer s) > 0 then
                  (case is_speech (vad s) (last (buffer s)) None of
                     Inl e \<Rightarrow> (Caught e, st)
                   | Inr (speech, d) \<Rightarrow>
                       (Continue,
                        st\<lparr>speech_detected_v := (speech_detected_v st \<or> speech),
                           session := s\<lparr>vad := d\<rparr>\<rparr>))
                else (Continue, st))
         in case detect of
              (Continue, st1) \<Rightarrow>
                (if speech_detected_v st1 then
                   (let s1 = session st1;
                        probe = (if length (buffer s1) > 0 then
                                   (case is_speech (vad s1) (last (buffer s1)) None of
                                      Inl e \<Rightarrow> Inl e
                                    | Inr (speech, d) \<Rightarrow> Inr (\<not> speech, s1\<lparr>vad := d\<rparr>))
                                 else Inr (False, s1))
                    in case probe of
                         Inl e \<Rightarrow> (Caught e, st1)
                       | Inr (silent, s2) \<Rightarrow>
                           (let st2 = st1\<lparr>silence_frames_v :=
                                             (if silent then silence_frames_v st1 + 1 else 0),
                                          session := s2\<rparr>
                            in case silence_secs cfg (silence_frames_v st2) of
                                 Inl e \<Rightarrow> (Caught e, st2)
                               | Inr secs \<Rightarrow>
                                   (if secs > speech_pad_end cfg then (Break, st2)
                                    else (Continue, st2))))
                 else (Continue, st1))
            | r \<Rightarrow> r))"

text \<open>
  The polling loop over the events. Nothing catches an exception here, so \<open>Caught\<close>
  from the body is an exception that reaches the caller (the first component of the
  result). An exception inside the callback
  stays in the driver's thread and the frame is not stored.
\<close>

fun capture_with_vad_loop ::
  "int option \<Rightarrow> vad_loop_state \<Rightarrow> event list
     \<Rightarrow> (py_exception option \<times> vad_loop_state) option" where
  "capture_with_vad_loop max_frames st [] = None"
| "capture_with_vad_loop max_frames st (Callback in_data # rest) =
     (case audio_callback (session st) in_data of
        Inl e \<Rightarrow> capture_with_vad_loop max_frames st rest
      | Inr (flag, s') \<Rightarrow> capture_with_vad_loop max_frames (st\<lparr>session := s'\<rparr>) rest)"
| "capture_with_vad_loop max_frames st (Poll elapsed # rest) =
     (if elapsed > timeout (input_config (session st)) then Some (None, st)
      else
        (case poll_body max_frames st of
           (Continue, st') \<Rightarrow> capture_with_vad_loop max_frames st' rest
         | (Break, st') \<Rightarrow> Some (None, st')
         | (Caught e, st') \<Rightarrow> Some (Some e, st')))"

definition capture_with_vad ::
  "audio_input \<Rightarrow> int option \<Rightarrow> bool \<Rightarrow> event list
     \<Rightarrow> ((py_exception + bytes option) \<times> audio_input) option" where
  "capture_with_vad s max_frames wait_for_speech events =
     (case capture_with_vad_loop max_frames
             \<lparr> speech_detected_v = \<not> wait_for_speech, silence_frames_v = 0, session = s \<rparr>
             events of
        None \<Rightarrow> None
      | Some (Some e, st) \<Rightarrow> Some (Inl e, session st)
      | Some (None, st) \<Rightarrow> Some (Inr (join_frames (buffer (session st))), session st))"

paragraph \<open>\<^verbatim>\<open>capture_audio\<close>\<close>

text \<open>
  The frame limit, \<^verbatim>\<open>int(duration * bytes_per_second / chunk_size)\<close> with
  \<^verbatim>\<open>bytes_per_second = sample_rate * channels * 2\<close>; \<^verbatim>\<open>None\<close> when no duration (or a
  zero one) is given.
\<close>

definition max_frames_of :: "audio_config \<Rightarrow> real option \<Rightarrow> py_exception + int option" where
  "max_frames_of cfg duration =
     (case duration of
        None \<Rightarrow> Inr None
      | Some dur \<Rightarrow>
          (if dur = 0 then Inr None
           else if chunk_size cfg = 0 then Inl ZeroDivisionError
           else
             (let bytes_per_second = sample_rate cfg * channels cfg * 2
              in Inr (Some (py_int (dur * real_of_int bytes_per_second
                                      / real_of_int (chunk_size cfg)))))))"

text \<open>
  The environment of a capture: the driver, and what the device does during the loop,
  the events for callback mode and the passes for manual mode.
\<close>

record environment =
  drv :: driver
  events :: "event list"
  passes :: "(real \<times> (py_exception + bytes)) list"

definition capture_audio ::
  "environment \<Rightarrow> audio_input \<Rightarrow> real option \<Rightarrow> bool
     \<Rightarrow> ((py_exception + bytes option) \<times> audio_input) option" where
  "capture_audio env s duration wait_for_speech =
     (let started = (if stream s = None then start_stream (drv env) s else (Inr True, s)) in
      case started of
        (Inl e, s') \<Rightarrow> Some (Inl e, s')
      | (Inr False, s') \<Rightarrow> Some (Inr None, s')
      | (Inr True, s') \<Rightarrow>
          (let s1 = s'\<lparr>buffer := []\<rparr> in
           case max_frames_of (input_config s1) duration of
             Inl e \<Rightarrow> Some (Inl e, s1)
           | Inr max_frames \<Rightarrow>
               (if vad_enabled (input_config s1)
                then capture_with_vad s1 max_frames wait_for_speech (events env)
                else capture_manual s1 max_frames wait_for_speech (passes env))))"

subsection \<open>\<^verbatim>\<open>save_audio\<close>\<close>

text \<open>
  The file system maps a file name to what the file holds: a complete WAV file with its
  parameters and sample data, or a file that was created and not completed. \<open>wav_io\<close>
  says for which file names \<^verbatim>\<open>wave.open\<close> and \<^verbatim>\<open>writeframes\<close> raise. The \<^verbatim>\<open>wave\<close>
  module itself raises on a channel count below 1 and on a frame rate that is not
  positive.
\<close>

record wav_data =
  nchannels :: int
  sampwidth :: int
  framerate :: int
  wav_frames :: bytes

datatype file_content = Incomplete | Wav wav_data

record wav_io =
  open_raises :: "string \<Rightarrow> bool"
  write_raises :: "string \<Rightarrow> bool"

definition save_audio ::
  "wav_io \<Rightarrow> audio_input \<Rightarrow> (string \<rightharpoonup> file_content) \<Rightarrow> bytes option \<Rightarrow> string
     \<Rightarrow> bool \<times> (string \<rightharpoonup> file_content)" where
  "save_audio io s fs audio_data filename =
     (case audio_data of
        None \<Rightarrow> (False, fs)
      | Some bs \<Rightarrow>
          (if bs = [] then (False, fs)
           else if open_raises io filename then (False, fs)
           else
             (let fs1 = fs(filename \<mapsto> Incomplete); cfg = input_config s in
              if channels cfg < 1 then (False, fs1)
              else if sample_rate cfg \<le> 0 then (False, fs1)
              else if write_raises io filename then (False, fs1)
              else (True, fs(filename \<mapsto> Wav \<lparr> nchannels = channels cfg, sampwidth = 2,
                                               framerate = sample_rate cfg, wav_frames = bs \<rparr>)))))"

subsection \<open>Observations used to state the properties\<close>

text \<open>
  The answers of a detector to a sequence of frames, each classified in the state the
  previous ones left, and the detector afterwards.
\<close>

fun classify_all ::
  "voice_activity_detector \<Rightarrow> bytes list \<Rightarrow> bool list \<times> voice_activity_detector" where
  "classify_all d [] = ([], d)"
| "classify_all d (f # fs) =
     (case is_speech d f None of
        Inl e \<Rightarrow> ([], d)
      | Inr (b, d') \<Rightarrow> (case classify_all d' fs of (bs, d'') \<Rightarrow> (b # bs, d'')))"


text \<open>A frame of \<open>n\<close> equal 16-bit samples, given by the low and the high byte.\<close>

definition constant_frame :: "nat \<Rightarrow> 8 word \<Rightarrow> 8 word \<Rightarrow> bytes" where
  "constant_frame n lo hi = concat (replicate n [lo, hi])"

subsection \<open>Concrete inputs\<close>

text \<open>
  A float32 kernel that is never consulted (the configurations below are \<^verbatim>\<open>int16\<close>), a
  driver and a file system whose calls all succeed, an external detector that rejects
  every frame (as the WebRTC detector does for a frame that is not 10, 20 or 30 ms long),
  and a session as \<^verbatim>\<open>AudioInput(config)\<close> builds it when PyAudio is installed and the
  WebRTC module is not.
\<close>

definition no_float32 :: "bytes \<Rightarrow> np_float" where
  "no_float32 b = NaN"


definition good_driver :: driver where
  "good_driver = \<lparr> new_instance = Inr 3, open_stream = (\<lambda>pa. Inr 7), raises = (\<lambda>c. False) \<rparr>"

definition good_io :: wav_io where
  "good_io = \<lparr> open_raises = (\<lambda>f. False), write_raises = (\<lambda>f. False) \<rparr>"

definition energy_detector :: "audio_config \<Rightarrow> voice_activity_detector" where
  "energy_detector cfg = VoiceActivityDetector cfg None no_float32"

definition fresh_session :: "audio_config \<Rightarrow> audio_input" where
  "fresh_session cfg = AudioInput cfg (energy_detector cfg) True"

definition failing_driver :: driver where
  "failing_driver = \<lparr> new_instance = Inl OSError, open_stream = (\<lambda>pa. Inl OSError),
                      raises = (\<lambda>c. False) \<rparr>"

text \<open>The session after a successful \<^verbatim>\<open>start_stream\<close> with \<open>good_driver\<close>.\<close>

definition started_session :: "audio_config \<Rightarrow> audio_input" where
  "started_session cfg =
     (fresh_session cfg)\<lparr> is_recording := True, stream := Some 7, pa_instance := Some (Some 3),
        calls := [PyAudio_new, Pa_open 3, Stream_start 7] \<rparr>"

text \<open>Manual mode with an energy floor of 50, everything else as by default.\<close>

definition manual_config :: audio_config where
  "manual_config = default_config\<lparr>silence_threshold := 50, vad_enabled := False\<rparr>"

subsection \<open>Manual mode with the classification of each stored frame\<close>

text \<open>
  To speak of the frames of the result that were classified as Silence, the manual loop is
  written a second time, storing each frame together with the answer \<^verbatim>\<open>is_speech\<close>
  gave for it in that pass. Nothing else differs, and \<open>erase\<close> forgets the answers again:
  the lemmas \<open>manual_body_erase\<close> and \<open>capture_manual_loop_erase\<close> below show that
  the logged loop is the loop of the source.
\<close>

record logged_state =
  entries :: "(bytes \<times> bool) list"
  speech_detected_l :: bool
  silence_frames_l :: int
  detector_l :: voice_activity_detector

definition erase :: "logged_state \<Rightarrow> manual_state" where
  "erase l = \<lparr> frames = map fst (entries l), speech_detected = speech_detected_l l,
              silence_frames = silence_frames_l l, detector = detector_l l \<rparr>"

definition manual_body_log ::
  "audio_config \<Rightarrow> int option \<Rightarrow> logged_state \<Rightarrow> py_exception + bytes
     \<Rightarrow> outcome \<times> logged_state" where
  "manual_body_log cfg max_frames st rd =
     (case rd of
        Inl e \<Rightarrow> (Caught e, st)
      | Inr data \<Rightarrow>
          (case is_speech (detector_l st) data None of
             Inl e \<Rightarrow> (Caught e, st)
           | Inr (speech, d) \<Rightarrow>
               (let st1 = st\<lparr>detector_l := d\<rparr>;
                    onset = (if \<not> speech_detected_l st1 \<and> speech then
                               (case pad_frames cfg of
                                  Inl e \<Rightarrow> (Caught e, st1\<lparr>speech_detected_l := True\<rparr>)
                                | Inr n \<Rightarrow>
                                    (Continue,
                                     st1\<lparr>speech_detected_l := True,
                                         entries := entries st1 @ slice_from (entries st1) (- n)\<rparr>))
                             else (Continue, st1))
                in case onset of
                     (Continue, st2) \<Rightarrow>
                       (let tracked =
                              (if speech_detected_l st2 then
                                 (let st3 = st2\<lparr>entries := entries st2 @ [(data, speech)],
                                               silence_frames_l :=
                                                 (if \<not> speech then silence_frames_l st2 + 1 else 0)\<rparr>
                                  in case silence_secs cfg (silence_frames_l st3) of
                                       Inl e \<Rightarrow> (Caught e, st3)
                                     | Inr secs \<Rightarrow>
                                         (if secs > speech_pad_end cfg then (Break, st3)
                                          else (Continue, st3)))
                               else (Continue, st2))
                        in case tracked of
                             (Continue, st4) \<Rightarrow>
                               (if frame_limit_reached max_frames (length (entries st4))
                                then (Break, st4) else (Continue, st4))
                           | r \<Rightarrow> r)
                   | r \<Rightarrow> r)))"

fun capture_manual_loop_log ::
  "audio_config \<Rightarrow> int option \<Rightarrow> logged_state \<Rightarrow> (real \<times> (py_exception + bytes)) list
     \<Rightarrow> logged_state option" where
  "capture_manual_loop_log cfg max_frames st [] = None"
| "capture_manual_loop_log cfg max_frames st ((elapsed, rd) # rest) =
     (if elapsed > timeout cfg then Some st
      else
        (case manual_body_log cfg max_frames st rd of
           (Continue, st') \<Rightarrow> capture_manual_loop_log cfg max_frames st' rest
         | (r, st') \<Rightarrow> Some st'))"

definition initial_log :: "voice_activity_detector \<Rightarrow> bool \<Rightarrow> logged_state" where
  "initial_log d wait_for_speech =
     \<lparr> entries = [], speech_detected_l = \<not> wait_for_speech, silence_frames_l = 0,
       detector_l = d \<rparr>"

text \<open>The number of Silence answers at the end of a list of answers.\<close>

definition trailing_silence :: "bool list \<Rightarrow> nat" where
  "trailing_silence bs = length (takeWhile Not (rev bs))"

text \<open>The duration of one frame in seconds.\<close>

definition frame_duration :: "audio_config \<Rightarrow> real" where
  "frame_duration cfg = real_of_int (chunk_size cfg) / real_of_int (sample_rate cfg)"

text \<open>
  A configuration in which \<^verbatim>\<open>speech_pad_end\<close> is a whole number of frames: 1000 samples
  at 16 kHz are 0.0625 s, and 0.25 s are four of them.
\<close>

definition exact_config :: audio_config where
  "exact_config = default_config\<lparr>chunk_size := 1000, silence_threshold := 50,
                                  speech_pad_end := 1 / 4, vad_enabled := False\<rparr>"

text \<open>
  What the device supplies in the executions below: with 1024 samples per frame a silent
  frame, a loud frame and four silent frames; with 1000 samples per frame a loud frame and
  five silent frames; eight silent frames.
\<close>

definition onset_passes :: "(real \<times> (py_exception + bytes)) list" where
  "onset_passes = [(64 / 1000, Inr (constant_frame 1024 0 0)),
                   (128 / 1000, Inr (constant_frame 1024 100 0)),
                   (192 / 1000, Inr (constant_frame 1024 0 0)),
                   (256 / 1000, Inr (constant_frame 1024 0 0)),
                   (320 / 1000, Inr (constant_frame 1024 0 0)),
                   (384 / 1000, Inr (constant_frame 1024 0 0))]"

definition exact_passes :: "(real \<times> (py_exception + bytes)) list" where
  "exact_passes = [(1 / 16, Inr (constant_frame 1000 100 0)),
                   (2 / 16, Inr (constant_frame 1000 0 0)),
                   (3 / 16, Inr (constant_frame 1000 0 0)),
                   (4 / 16, Inr (constant_frame 1000 0 0)),
                   (5 / 16, Inr (constant_frame 1000 0 0)),
                   (6 / 16, Inr (constant_frame 1000 0 0))]"

definition silent_passes :: "(real \<times> (py_exception + bytes)) list" where
  "silent_passes = [(64 / 1000, Inr (constant_frame 1024 0 0)),
                    (128 / 1000, Inr (constant_frame 1024 0 0)),
                    (192 / 1000, Inr (constant_frame 1024 0 0)),
                    (256 / 1000, Inr (constant_frame 1024 0 0)),
                    (320 / 1000, Inr (constant_frame 1024 0 0)),
                    (384 / 1000, Inr (constant_frame 1024 0 0)),
                    (448 / 1000, Inr (constant_frame 1024 0 0)),
                    (512 / 1000, Inr (constant_frame 1024 0 0))]"

text \<open>The root mean square of a list of sample values.\<close>

definition rms :: "int list \<Rightarrow> real" where
  "rms xs = sqrt (real_of_int (sum_list (map (\<lambda>x. x * x) xs)) / real (length xs))"

section \<open>Properties\<close>

subsection \<open>The energy strategy\<close>

lemma np_sqrt_square: "0 \<le> x \<Longrightarrow> np_sqrt (Fin (x * x)) = Fin x"
  by (simp add: mult_less_0_iff)

lemma np_sqrt_nonneg: "np_sqrt m = Fin e \<Longrightarrow> 0 \<le> e"
  by (cases m) (auto split: if_splits)

lemma frame_energy_nonneg: "frame_energy d f = Inr (Fin e) \<Longrightarrow> 0 \<le> e"
  by (auto simp: frame_energy_def split: sum.splits dest: np_sqrt_nonneg)

lemma int16_samples_constant_frame:
  "int16_samples (constant_frame n lo hi) = replicate n (word_cat hi lo)"
  by (induction n) (simp_all add: constant_frame_def)

lemma length_constant_frame: "length (constant_frame n lo hi) = 2 * n"
  by (induction n) (simp_all add: constant_frame_def)

lemma sum_list_replicate_int: "sum_list (replicate n (k::int)) = int n * k"
  by (induction n) (simp_all add: algebra_simps)

text \<open>The energy of a frame of equal samples: the root of the wrapped square.\<close>

lemma frame_energy_constant_frame:
  assumes "format (config d) \<noteq> ''float32''" and "0 < n"
  shows "frame_energy d (constant_frame n lo hi) =
           Inr (np_sqrt (Fin (real_of_int (sint ((word_cat hi lo :: 16 word) * word_cat hi lo)))))"
  using assms
  by (simp add: frame_energy_def mean_square_def frombuffer_int16_def length_constant_frame
      int16_samples_constant_frame np_square_int16_def np_mean_int16_def sum_list_replicate_int)

lemma update_energy_threshold_nonneg:
  "0 \<le> energy_threshold d \<Longrightarrow> (\<And>x. e = Fin x \<Longrightarrow> 0 \<le> x)
     \<Longrightarrow> 0 \<le> energy_threshold (update_energy_threshold d e)"
  by (cases e) (auto simp: update_energy_threshold_def)

text \<open>
  A frame above the threshold after the update was not below it before: the update moves
  the threshold by less than the distance to the energy.
\<close>

lemma update_energy_threshold_speech:
  assumes "np_greater e (energy_threshold (update_energy_threshold d e))"
    and "\<And>x. e = Fin x \<Longrightarrow> 0 \<le> x"
  shows "update_energy_threshold d e = d"
proof (cases e)
  case (Fin x)
  show ?thesis
  proof (cases "x < energy_threshold d")
    case True
    with Fin assms
    have "x > (95 / 100) * energy_threshold d + (5 / 100) * ((15 / 10) * x)" "0 \<le> x"
      by (auto simp: update_energy_threshold_def)
    with True have False by linarith
    then show ?thesis ..
  next
    case False
    with Fin show ?thesis by (simp add: update_energy_threshold_def)
  qed
qed (simp_all add: update_energy_threshold_def)

lemma is_speech_energy_body_inv:
  assumes "is_speech_energy_body d f = Inr (b, d')" and "0 \<le> energy_threshold d"
  shows "0 \<le> energy_threshold d' \<and> (b \<longrightarrow> d' = d)"
proof -
  from assms(1) obtain e where e: "frame_energy d f = Inr e"
    and d': "d' = (if dynamic_threshold d then update_energy_threshold d e else d)"
    and b: "b = np_greater e (energy_threshold d')"
    by (auto simp: is_speech_energy_body_def Let_def split: sum.splits)
  have nn: "\<And>x. e = Fin x \<Longrightarrow> 0 \<le> x"
    using e frame_energy_nonneg by blast
  show ?thesis
    using d' b assms(2) update_energy_threshold_nonneg[OF assms(2) nn]
      update_energy_threshold_speech[OF _ nn]
    by (auto split: if_splits)
qed

lemma is_speech_energy_inv:
  assumes "is_speech_energy d f = Inr (b, d')" and "0 \<le> energy_threshold d"
  shows "0 \<le> energy_threshold d' \<and> (b \<longrightarrow> d' = d)"
  using assms is_speech_energy_body_inv[of d f b d']
  by (auto simp: is_speech_energy_def split: sum.splits)

lemma is_speech_inv:
  assumes "is_speech d f r = Inr (b, d')" and "0 \<le> energy_threshold d"
  shows "0 \<le> energy_threshold d' \<and> (b \<longrightarrow> d' = d)"
  using assms is_speech_energy_inv[of d f b d']
  by (auto simp: is_speech_def Let_def split: option.splits sum.splits)

lemma is_speech_energy_total: "\<exists>b d'. is_speech_energy d f = Inr (b, d')"
  by (auto simp: is_speech_energy_def split: sum.splits)

lemma is_speech_total: "\<exists>b d'. is_speech d f r = Inr (b, d')"
  by (auto simp: is_speech_def is_speech_energy_def Let_def split: option.splits sum.splits)

lemma classify_all_threshold_nonneg:
  "0 \<le> energy_threshold d \<Longrightarrow> 0 \<le> energy_threshold (snd (classify_all d fs))"
proof (induction fs arbitrary: d)
  case Nil
  then show ?case by simp
next
  case (Cons f fs)
  obtain b d' where r: "is_speech d f None = Inr (b, d')"
    using is_speech_total by blast
  with Cons.prems have "0 \<le> energy_threshold d'"
    using is_speech_inv by blast
  from Cons.IH[OF this] r show ?case
    by (auto split: prod.splits)
qed

lemma is_speech_constant_frame:
  assumes "webrtc_vad d = None" and "format (config d) \<noteq> ''float32''" and "0 < n"
  shows "is_speech d (constant_frame n lo hi) r =
           (let e = np_sqrt (Fin (real_of_int (sint ((word_cat hi lo :: 16 word) * word_cat hi lo))));
                d' = (if dynamic_threshold d then update_energy_threshold d e else d)
            in Inr (np_greater e (energy_threshold d'), d'))"
  using assms
  by (simp add: is_speech_def is_speech_energy_def is_speech_energy_body_def
      frame_energy_constant_frame Let_def)

lemma sqrt_10000: "sqrt 10000 = 100"
  using real_sqrt_abs[of 100] by simp

lemma sqrt_9: "sqrt 9 = 3"
  using real_sqrt_abs[of 3] by simp

text \<open>
  C5, as amended. While \<^verbatim>\<open>dynamic_silence\<close> is enabled, a frame whose computed energy
  \<open>e\<close> is strictly below the current floor is classified as Silence and moves the floor
  to exactly \<open>0.95 * floor + 0.05 * (1.5 * e)\<close>.
\<close>

theorem silence_update_below_floor:
  assumes "dynamic_threshold d" and "frame_energy d f = Inr (Fin e)" and "e < energy_threshold d"
  shows "is_speech_energy d f =
           Inr (False, d\<lparr>energy_threshold :=
                          (95 / 100) * energy_threshold d + (5 / 100) * ((15 / 10) * e)\<rparr>)"
proof -
  have "0 \<le> e" using assms(2) by (rule frame_energy_nonneg)
  with assms(3)
  have "\<not> e > (95 / 100) * energy_threshold d + (5 / 100) * ((15 / 10) * e)"
    by linarith
  with assms show ?thesis
    by (simp add: is_speech_energy_def is_speech_energy_body_def update_energy_threshold_def)
qed

text \<open>
  With the default configuration (floor 300), a frame of 1024 samples of value 100 has
  energy 100 and moves the floor to 292.5.
\<close>

theorem silence_update_below_floor_witness:
  "dynamic_threshold (energy_detector default_config)
   \<and> frame_energy (energy_detector default_config) (constant_frame 1024 100 0) = Inr (Fin 100)
   \<and> (100::real) < energy_threshold (energy_detector default_config)
   \<and> is_speech_energy (energy_detector default_config) (constant_frame 1024 100 0)
       = Inr (False, (energy_detector default_config)\<lparr>energy_threshold := 2925 / 10\<rparr>)"
proof -
  let ?d = "energy_detector default_config"
  have a: "dynamic_threshold ?d"
    by (simp add: energy_detector_def VoiceActivityDetector_def default_config_def)
  have b: "frame_energy ?d (constant_frame 1024 100 0) = Inr (Fin 100)"
    by (simp add: frame_energy_constant_frame energy_detector_def VoiceActivityDetector_def
        default_config_def word_cat_eq sqrt_10000)
  have c: "(100::real) < energy_threshold ?d"
    by (simp add: energy_detector_def VoiceActivityDetector_def default_config_def)
  show ?thesis
    using a b c silence_update_below_floor[OF a b c]
    by (simp add: energy_detector_def VoiceActivityDetector_def default_config_def)
qed

text \<open>
  C5 as stated fails on a frame whose energy equals the floor. With the floor configured
  as 3, a frame of 1024 samples of value 3 has energy 3, which does not exceed the floor:
  the frame is Silence, \<^verbatim>\<open>dynamic_silence\<close> is enabled, and the floor stays 3 instead
  of becoming \<open>0.95 * 3 + 0.05 * (1.5 * 3) = 3.075\<close>.
\<close>

theorem silence_update_counterexample:
  "dynamic_threshold (energy_detector (default_config\<lparr>silence_threshold := 3\<rparr>))
   \<and> frame_energy (energy_detector (default_config\<lparr>silence_threshold := 3\<rparr>))
        (constant_frame 1024 3 0) = Inr (Fin 3)
   \<and> is_speech_energy (energy_detector (default_config\<lparr>silence_threshold := 3\<rparr>))
        (constant_frame 1024 3 0)
      = Inr (False, energy_detector (default_config\<lparr>silence_threshold := 3\<rparr>))
   \<and> energy_threshold (energy_detector (default_config\<lparr>silence_threshold := 3\<rparr>))
      \<noteq> (95 / 100) * 3 + (5 / 100) * ((15 / 10) * 3)"
  by (simp add: is_speech_energy_def is_speech_energy_body_def frame_energy_constant_frame
      energy_detector_def VoiceActivityDetector_def default_config_def word_cat_eq sqrt_9
      update_energy_threshold_def)

text \<open>
  C6. With a non-negative configured \<^verbatim>\<open>silence_threshold\<close>, after any sequence of
  classified frames the floor is non-negative, the next classification returns (it does
  not raise) and leaves the floor non-negative, and a frame classified as Speech leaves
  the detector state as it was.
\<close>

theorem energy_floor_invariant:
  assumes "0 \<le> silence_threshold cfg"
  shows "\<exists>b d'. is_speech (snd (classify_all (VoiceActivityDetector cfg w f32) fs)) f r = Inr (b, d')
           \<and> 0 \<le> energy_threshold (snd (classify_all (VoiceActivityDetector cfg w f32) fs))
           \<and> 0 \<le> energy_threshold d'
           \<and> (b \<longrightarrow> d' = snd (classify_all (VoiceActivityDetector cfg w f32) fs))"
proof -
  let ?d = "snd (classify_all (VoiceActivityDetector cfg w f32) fs)"
  have "0 \<le> energy_threshold (VoiceActivityDetector cfg w f32)"
    using assms by (simp add: VoiceActivityDetector_def)
  then have nn: "0 \<le> energy_threshold ?d"
    by (rule classify_all_threshold_nonneg)
  obtain b d' where r: "is_speech ?d f r = Inr (b, d')"
    using is_speech_total by blast
  with nn show ?thesis
    using is_speech_inv[OF r nn] by blast
qed

text \<open>
  A silent frame followed by a loud one, floor configured as 50: the silent frame lowers
  the floor to 47.5, the loud frame is Speech and leaves it there.
\<close>

theorem energy_floor_invariant_witness:
  "0 \<le> silence_threshold (default_config\<lparr>silence_threshold := 50\<rparr>)
   \<and> snd (classify_all (energy_detector (default_config\<lparr>silence_threshold := 50\<rparr>))
            [constant_frame 1024 0 0])
       = (energy_detector (default_config\<lparr>silence_threshold := 50\<rparr>))\<lparr>energy_threshold := 475 / 10\<rparr>
   \<and> is_speech ((energy_detector (default_config\<lparr>silence_threshold := 50\<rparr>))
                   \<lparr>energy_threshold := 475 / 10\<rparr>) (constant_frame 1024 100 0) None
       = Inr (True, (energy_detector (default_config\<lparr>silence_threshold := 50\<rparr>))
                      \<lparr>energy_threshold := 475 / 10\<rparr>)"
proof -
  let ?cfg = "default_config\<lparr>silence_threshold := 50\<rparr>"
  let ?d1 = "(energy_detector ?cfg)\<lparr>energy_threshold := 475 / 10\<rparr>"
  have a: "0 \<le> silence_threshold ?cfg"
    by (simp add: default_config_def)
  have b: "snd (classify_all (energy_detector ?cfg) [constant_frame 1024 0 0]) = ?d1"
    by (simp add: energy_detector_def VoiceActivityDetector_def default_config_def
        is_speech_constant_frame word_cat_eq update_energy_threshold_def)
  have c: "is_speech ?d1 (constant_frame 1024 100 0) None = Inr (True, ?d1)"
    by (simp add: energy_detector_def VoiceActivityDetector_def default_config_def
        is_speech_constant_frame word_cat_eq update_energy_threshold_def sqrt_10000)
  from energy_floor_invariant[OF a, of None no_float32 "[constant_frame 1024 0 0]"
      "constant_frame 1024 100 0" None] a b c
  show ?thesis by blast
qed



text \<open>When the external detector answers, its answer is returned and nothing changes.\<close>

lemma is_speech_detector_answer:
  assumes "webrtc_vad d = Some g"
    and "g f (case r of None \<Rightarrow> sample_rate (config d) | Some x \<Rightarrow> x) = Inr b"
  shows "is_speech d f r = Inr (b, d)"
  using assms by (simp add: is_speech_def Let_def)


subsection \<open>The session\<close>

lemma start_stream_fresh:
  "start_stream good_driver (fresh_session cfg) =
     (Inr True, (fresh_session cfg)\<lparr> is_recording := True, stream := Some 7,
         pa_instance := Some (Some 3), calls := [PyAudio_new, Pa_open 3, Stream_start 7]\<rparr>)"
  by (simp add: start_stream_def good_driver_def fresh_session_def AudioInput_def driver_call_def)

text \<open>
  C8. \<^verbatim>\<open>stop_stream\<close> never raises, and calling it again on the state it leaves
  changes nothing: the stream and the PyAudio instance are cleared, the flags are set,
  and the driver calls of the two calls together are those of the first: one
  \<^verbatim>\<open>stop_stream\<close> on the stream handle, followed by its \<^verbatim>\<open>close\<close> unless the stop
  raised, and one \<^verbatim>\<open>terminate\<close> on the PyAudio instance.
\<close>

theorem stop_stream_idempotent:
  "\<exists>s1. stop_stream dr s = Inr s1 \<and> stop_stream dr s1 = Inr s1
      \<and> stream s1 = None
      \<and> pa_instance s1 = (if pa_instance s = None then None else Some None)
      \<and> stop_requested s1 \<and> \<not> is_recording s1
      \<and> calls s1 = calls s
           @ (case stream s of
                None \<Rightarrow> []
              | Some h \<Rightarrow> (if raises dr (Stream_stop h) then [Stream_stop h]
                           else [Stream_stop h, Stream_close h]))
           @ (case pa_instance s of Some (Some p) \<Rightarrow> [Pa_terminate p] | _ \<Rightarrow> [])"
  by (auto simp: stop_stream_def driver_call_def Let_def split: option.splits)

text \<open>
  A session started with the default configuration, then stopped twice: the handle 7 is
  stopped and closed once and the instance 3 terminated once.
\<close>

theorem stop_stream_idempotent_witness:
  "stop_stream good_driver (snd (start_stream good_driver (fresh_session default_config)))
     = Inr ((fresh_session default_config)\<lparr> stop_requested := True, pa_instance := Some None,
             calls := [PyAudio_new, Pa_open 3, Stream_start 7,
                       Stream_stop 7, Stream_close 7, Pa_terminate 3]\<rparr>)
   \<and> stop_stream good_driver
        ((fresh_session default_config)\<lparr> stop_requested := True, pa_instance := Some None,
             calls := [PyAudio_new, Pa_open 3, Stream_start 7,
                       Stream_stop 7, Stream_close 7, Pa_terminate 3]\<rparr>)
     = Inr ((fresh_session default_config)\<lparr> stop_requested := True, pa_instance := Some None,
             calls := [PyAudio_new, Pa_open 3, Stream_start 7,
                       Stream_stop 7, Stream_close 7, Pa_terminate 3]\<rparr>)"
proof -
  let ?s = "snd (start_stream good_driver (fresh_session default_config))"
  let ?t = "(fresh_session default_config)\<lparr> stop_requested := True, pa_instance := Some None,
             calls := [PyAudio_new, Pa_open 3, Stream_start 7,
                       Stream_stop 7, Stream_close 7, Pa_terminate 3]\<rparr>"
  have no_raise: "\<And>c. \<not> raises good_driver c"
    by (simp add: good_driver_def)
  have first: "stop_stream good_driver ?s = Inr ?t"
    unfolding start_stream_fresh
    by (simp add: stop_stream_def driver_call_def Let_def no_raise fresh_session_def
        AudioInput_def)
  from stop_stream_idempotent[of good_driver ?s] first show ?thesis
    by auto
qed

subsection \<open>Saving\<close>

text \<open>
  C10. \<^verbatim>\<open>save_audio\<close> with \<^verbatim>\<open>None\<close> or with empty data returns \<^verbatim>\<open>False\<close> and leaves
  the file system as it was. When it returns \<^verbatim>\<open>True\<close> the data was not empty and the
  file holds it as a WAV file; and whenever the file system changed, the data was not
  empty.
\<close>

theorem save_audio_empty:
  "((audio_data = None \<or> audio_data = Some []) \<longrightarrow>
       save_audio io s fs audio_data filename = (False, fs))
   \<and> (fst (save_audio io s fs audio_data filename) \<longrightarrow>
       (\<exists>bs. audio_data = Some bs \<and> bs \<noteq> []
           \<and> snd (save_audio io s fs audio_data filename) filename
               = Some (Wav \<lparr> nchannels = channels (input_config s), sampwidth = 2,
                               framerate = sample_rate (input_config s), wav_frames = bs \<rparr>)))
   \<and> (snd (save_audio io s fs audio_data filename) \<noteq> fs \<longrightarrow>
       (\<exists>bs. audio_data = Some bs \<and> bs \<noteq> []))"
  by (auto simp: save_audio_def Let_def split: option.splits if_splits)

theorem save_audio_empty_witness:
  "save_audio good_io (fresh_session default_config) Map.empty (Some []) ''out.wav''
     = (False, Map.empty)
   \<and> save_audio good_io (fresh_session default_config) Map.empty None ''out.wav''
     = (False, Map.empty)
   \<and> fst (save_audio good_io (fresh_session default_config) Map.empty (Some [1, 0]) ''out.wav'')
   \<and> snd (save_audio good_io (fresh_session default_config) Map.empty (Some [1, 0]) ''out.wav'')
        ''out.wav''
      = Some (Wav \<lparr> nchannels = 1, sampwidth = 2, framerate = 16000, wav_frames = [1, 0] \<rparr>)
   \<and> snd (save_audio good_io (fresh_session default_config) Map.empty (Some [1, 0]) ''out.wav'')
      \<noteq> Map.empty"
  using save_audio_empty[of "Some []" good_io "fresh_session default_config" Map.empty "''out.wav''"]
    save_audio_empty[of None good_io "fresh_session default_config" Map.empty "''out.wav''"]
    save_audio_empty[of "Some [1, 0]" good_io "fresh_session default_config" Map.empty "''out.wav''"]
  by (simp add: save_audio_def good_io_def fresh_session_def AudioInput_def default_config_def)

lemma start_stream_fresh_started:
  "start_stream good_driver (fresh_session cfg) = (Inr True, started_session cfg)"
  by (simp add: start_stream_fresh started_session_def)

text \<open>
  With a driver that works, \<^verbatim>\<open>capture_audio\<close> on a fresh session starts the stream and
  runs the loop of the configured mode.
\<close>

lemma capture_audio_fresh:
  assumes "drv env = good_driver"
  shows "capture_audio env (fresh_session cfg) duration w =
     (case max_frames_of cfg duration of
        Inl e \<Rightarrow> Some (Inl e, started_session cfg)
      | Inr max_frames \<Rightarrow>
          (if vad_enabled cfg
           then capture_with_vad (started_session cfg) max_frames w (events env)
           else capture_manual (started_session cfg) max_frames w (passes env)))"
proof -
  have a: "stream (fresh_session cfg) = None"
    by (simp add: fresh_session_def AudioInput_def)
  have b: "(started_session cfg)\<lparr>buffer := []\<rparr> = started_session cfg"
    by (simp add: started_session_def fresh_session_def AudioInput_def)
  have c: "input_config (started_session cfg) = cfg"
    by (simp add: started_session_def fresh_session_def AudioInput_def)
  show ?thesis
    by (simp add: capture_audio_def a assms start_stream_fresh_started b c Let_def
        split: sum.splits)
qed

text \<open>
  Where \<^verbatim>\<open>start_stream\<close> does not raise: no stream is open, \<^verbatim>\<open>pa_instance\<close> does not
  hold \<^verbatim>\<open>None\<close>, and \<^verbatim>\<open>terminate()\<close> does not raise. Then a failed start is answered
  \<^verbatim>\<open>False\<close>, and \<^verbatim>\<open>capture_audio\<close> returns \<^verbatim>\<open>None\<close>.
\<close>

lemma start_stream_no_exception:
  assumes "stream s = None" and "pa_instance s \<noteq> Some None"
    and "\<And>p. \<not> raises dr (Pa_terminate p)"
  shows "\<exists>ok. fst (start_stream dr s) = Inr ok"
  using assms
  by (auto simp: start_stream_def start_stream_except_def stop_stream_def driver_call_def Let_def
      split: option.splits sum.splits if_splits)

lemma capture_audio_start_failure:
  assumes "stream s = None" and "fst (start_stream (drv env) s) = Inr False"
  shows "capture_audio env s duration wait_for_speech
           = Some (Inr None, snd (start_stream (drv env) s))"
  using assms by (cases "start_stream (drv env) s") (simp add: capture_audio_def)

text \<open>
  C9 (a defect of the code). A session that was started and stopped holds \<^verbatim>\<open>None\<close> in
  \<^verbatim>\<open>pa_instance\<close>. When \<^verbatim>\<open>capture_audio\<close> is called on it and \<^verbatim>\<open>pyaudio.PyAudio()\<close>
  raises, the \<^verbatim>\<open>except\<close> block of \<^verbatim>\<open>start_stream\<close> calls \<^verbatim>\<open>terminate()\<close> on \<^verbatim>\<open>None\<close>:
  \<^verbatim>\<open>capture_audio\<close> raises \<^verbatim>\<open>AttributeError\<close> instead of returning \<^verbatim>\<open>None\<close>.
\<close>

theorem capture_audio_raises_after_stop:
  "stop_stream good_driver (snd (start_stream good_driver (fresh_session default_config)))
     = Inr ((fresh_session default_config)\<lparr> stop_requested := True, pa_instance := Some None,
             calls := [PyAudio_new, Pa_open 3, Stream_start 7,
                       Stream_stop 7, Stream_close 7, Pa_terminate 3]\<rparr>)
   \<and> capture_audio \<lparr> drv = failing_driver, events = [], passes = [] \<rparr>
        ((fresh_session default_config)\<lparr> stop_requested := True, pa_instance := Some None,
             calls := [PyAudio_new, Pa_open 3, Stream_start 7,
                       Stream_stop 7, Stream_close 7, Pa_terminate 3]\<rparr>) None True
     = Some (Inl AttributeError,
             (fresh_session default_config)\<lparr> stop_requested := True, pa_instance := Some None,
             calls := [PyAudio_new, Pa_open 3, Stream_start 7,
                       Stream_stop 7, Stream_close 7, Pa_terminate 3, PyAudio_new]\<rparr>)"
proof -
  have no_raise: "\<And>c. \<not> raises good_driver c"
    by (simp add: good_driver_def)
  have first:
    "stop_stream good_driver (snd (start_stream good_driver (fresh_session default_config)))
     = Inr ((fresh_session default_config)\<lparr> stop_requested := True, pa_instance := Some None,
             calls := [PyAudio_new, Pa_open 3, Stream_start 7,
                       Stream_stop 7, Stream_close 7, Pa_terminate 3]\<rparr>)"
    unfolding start_stream_fresh
    by (simp add: stop_stream_def driver_call_def Let_def no_raise fresh_session_def
        AudioInput_def)
  have second: "capture_audio \<lparr> drv = failing_driver, events = [], passes = [] \<rparr>
        ((fresh_session default_config)\<lparr> stop_requested := True, pa_instance := Some None,
             calls := [PyAudio_new, Pa_open 3, Stream_start 7,
                       Stream_stop 7, Stream_close 7, Pa_terminate 3]\<rparr>) None True
     = Some (Inl AttributeError,
             (fresh_session default_config)\<lparr> stop_requested := True, pa_instance := Some None,
             calls := [PyAudio_new, Pa_open 3, Stream_start 7,
                       Stream_stop 7, Stream_close 7, Pa_terminate 3, PyAudio_new]\<rparr>)"
    by (simp add: capture_audio_def start_stream_def start_stream_except_def failing_driver_def
        fresh_session_def AudioInput_def Let_def)
  from first second show ?thesis by simp
qed

subsection \<open>An execution in callback mode\<close>

text \<open>
  C2 (a defect of the code). Callback mode with the default configuration and
  \<^verbatim>\<open>wait_for_speech=True\<close>. The driver delivers one silent frame, the loop polls once
  and then finds the timeout of 2 s exceeded. No frame was classified as Speech, and the
  result is the silent frame, not \<^verbatim>\<open>None\<close>: the callback stores every frame while
  \<^verbatim>\<open>is_recording\<close> is set, and the loop returns the whole buffer.
\<close>

theorem callback_capture_returns_silence:
  "fst (classify_all (energy_detector default_config) [constant_frame 1024 0 0]) = [False]
   \<and> map_option fst (capture_audio
        \<lparr> drv = good_driver,
          events = [Callback (constant_frame 1024 0 0), Poll (1 / 100), Poll (201 / 100)],
          passes = [] \<rparr>
        (fresh_session default_config) None True)
     = Some (Inr (Some (constant_frame 1024 0 0)))"
proof -
  let ?events = "[Callback (constant_frame 1024 0 0), Poll (1 / 100), Poll (201 / 100)]"
  have a: "fst (classify_all (energy_detector default_config) [constant_frame 1024 0 0]) = [False]"
    by (simp add: is_speech_constant_frame update_energy_threshold_def word_cat_eq Let_def
        default_config_def energy_detector_def VoiceActivityDetector_def)
  have b: "capture_audio \<lparr> drv = good_driver, events = ?events, passes = [] \<rparr>
             (fresh_session default_config) None True
           = capture_with_vad (started_session default_config) None True ?events"
    by (simp add: capture_audio_fresh max_frames_of_def default_config_def)
  have c: "map_option fst (capture_with_vad (started_session default_config) None True ?events)
      = Some (Inr (Some (constant_frame 1024 0 0)))"
    by (simp add: capture_with_vad_def poll_body_def audio_callback_def silence_secs_def
        frame_limit_reached_def join_frames_def is_speech_constant_frame
        update_energy_threshold_def word_cat_eq Let_def default_config_def
        started_session_def fresh_session_def AudioInput_def energy_detector_def
        VoiceActivityDetector_def)
  from a b c show ?thesis by simp
qed

subsection \<open>The manual loop and its logged form\<close>

lemma slice_from_map: "slice_from (map f xs) i = map f (slice_from xs i)"
  by (simp add: slice_from_def drop_map)

lemma manual_body_erase:
  "manual_body cfg max_frames (erase l) rd =
     (case manual_body_log cfg max_frames l rd of (out, l') \<Rightarrow> (out, erase l'))"
  by (auto simp: manual_body_def manual_body_log_def erase_def Let_def slice_from_map
      split: sum.splits prod.splits outcome.splits if_splits)

lemma capture_manual_loop_erase:
  "capture_manual_loop cfg max_frames (erase l) ps =
     map_option erase (capture_manual_loop_log cfg max_frames l ps)"
proof (induction ps arbitrary: l)
  case Nil
  then show ?case by simp
next
  case (Cons p ps)
  obtain elapsed rd where p: "p = (elapsed, rd)" by (cases p)
  obtain out l' where b: "manual_body_log cfg max_frames l rd = (out, l')"
    by (cases "manual_body_log cfg max_frames l rd")
  show ?case
    using Cons.IH[of l'] b
    by (cases out) (simp_all add: p manual_body_erase)
qed

subsection \<open>Endpointing in manual mode\<close>

lemma trailing_silence_snoc:
  "trailing_silence (bs @ [b]) = (if b then 0 else Suc (trailing_silence bs))"
  by (simp add: trailing_silence_def)

lemma trailing_silence_Nil: "trailing_silence [] = 0"
  by (simp add: trailing_silence_def)

lemma trailing_silence_single: "trailing_silence [b] = (if b then 0 else 1)"
  by (simp add: trailing_silence_def)

lemma secs_pred_le:
  assumes "0 < c" and "0 < r"
  shows "real_of_int ((n - 1) * c) / real_of_int r \<le> real_of_int (n * c) / real_of_int r"
proof -
  have "(n - 1) * c \<le> n * c"
    using assms(1) by (simp add: mult_right_mono)
  then have "real_of_int ((n - 1) * c) \<le> real_of_int (n * c)"
    by linarith
  then show ?thesis
    using assms(2) by (simp add: divide_right_mono)
qed

lemma secs_neg_le:
  assumes "0 < c" and "0 < r" and "0 \<le> p"
  shows "real_of_int ((0 - 1) * c) / real_of_int r \<le> p"
proof -
  have "real_of_int ((0 - 1) * c) / real_of_int r \<le> 0"
    using assms(1,2) by (simp add: divide_nonpos_pos)
  with assms(3) show ?thesis by linarith
qed

lemma manual_body_log_inv:
  assumes cs: "0 < chunk_size cfg" and sr: "0 < sample_rate cfg" and pe: "0 \<le> speech_pad_end cfg"
    and i1: "\<not> speech_detected_l l \<longrightarrow> entries l = []"
    and i2: "silence_frames_l l = int (trailing_silence (map snd (entries l)))"
    and i3: "real_of_int (silence_frames_l l * chunk_size cfg) / real_of_int (sample_rate cfg)
               \<le> speech_pad_end cfg"
    and b: "manual_body_log cfg mf l rd = (out, l')"
  shows "silence_frames_l l' = int (trailing_silence (map snd (entries l')))
       \<and> real_of_int ((silence_frames_l l' - 1) * chunk_size cfg) / real_of_int (sample_rate cfg)
               \<le> speech_pad_end cfg
       \<and> (out = Continue \<longrightarrow>
            (\<not> speech_detected_l l' \<longrightarrow> entries l' = [])
            \<and> real_of_int (silence_frames_l l' * chunk_size cfg) / real_of_int (sample_rate cfg)
                 \<le> speech_pad_end cfg)"
proof -
  note p = secs_pred_le[OF cs sr, of "silence_frames_l l"]
  note q = secs_neg_le[OF cs sr pe]
  from p i3 have i4: "real_of_int ((silence_frames_l l - 1) * chunk_size cfg)
      / real_of_int (sample_rate cfg) \<le> speech_pad_end cfg"
    by linarith
  show ?thesis
  proof (cases rd)
    case (Inl e)
    with b i1 i2 i3 i4 show ?thesis
      by (auto simp: manual_body_log_def)
  next
    case (Inr data)
    obtain speech d where s: "is_speech (detector_l l) data None = Inr (speech, d)"
      using is_speech_total by blast
    show ?thesis
    proof (cases "speech_detected_l l")
      case True
      with b Inr s i2 i3 i4 q cs sr show ?thesis
        by (auto simp: manual_body_log_def Let_def silence_secs_def trailing_silence_snoc
            split: if_splits)
    next
      case False
      with i1 have e: "entries l = []" by simp
      from False b Inr s i2 i3 i4 q cs sr e show ?thesis
        by (auto simp: manual_body_log_def Let_def silence_secs_def pad_frames_def
            slice_from_def trailing_silence_single trailing_silence_Nil split: if_splits)
    qed
  qed
qed


lemma capture_manual_loop_log_inv:
  assumes cs: "0 < chunk_size cfg" and sr: "0 < sample_rate cfg" and pe: "0 \<le> speech_pad_end cfg"
  shows "\<not> speech_detected_l l \<longrightarrow> entries l = [] \<Longrightarrow>
         silence_frames_l l = int (trailing_silence (map snd (entries l))) \<Longrightarrow>
         real_of_int (silence_frames_l l * chunk_size cfg) / real_of_int (sample_rate cfg)
               \<le> speech_pad_end cfg \<Longrightarrow>
         capture_manual_loop_log cfg mf l ps = Some l' \<Longrightarrow>
         silence_frames_l l' = int (trailing_silence (map snd (entries l')))
       \<and> real_of_int ((silence_frames_l l' - 1) * chunk_size cfg) / real_of_int (sample_rate cfg)
               \<le> speech_pad_end cfg"
proof (induction ps arbitrary: l)
  case Nil
  then show ?case by simp
next
  case (Cons p ps)
  obtain elapsed rd where p: "p = (elapsed, rd)" by (cases p)
  obtain out l1 where b: "manual_body_log cfg mf l rd = (out, l1)"
    by (cases "manual_body_log cfg mf l rd")
  note step = manual_body_log_inv[OF cs sr pe Cons.prems(1,2,3) b]
  show ?case
  proof (cases "elapsed > timeout cfg")
    case True
    with Cons.prems(4) p have "l' = l" by simp
    with Cons.prems(2,3) secs_pred_le[OF cs sr, of "silence_frames_l l"] show ?thesis
      by simp
  next
    case False
    show ?thesis
    proof (cases "out = Continue")
      case True
      with False Cons.prems(4) p b
      have "capture_manual_loop_log cfg mf l1 ps = Some l'" by simp
      with Cons.IH[of l1] step True show ?thesis by blast
    next
      case False
      with \<open>\<not> elapsed > timeout cfg\<close> Cons.prems(4) p b have "l' = l1"
        by (cases out) simp_all
      with step show ?thesis by blast
    qed
  qed
qed

lemma silence_frames_bound:
  assumes cs: "0 < c" and sr: "0 < r"
    and le: "real_of_int ((n - 1) * c) / real_of_int r \<le> p"
  shows "n \<le> \<lfloor>p / (real_of_int c / real_of_int r)\<rfloor> + 1"
proof -
  from le sr have "real_of_int ((n - 1) * c) \<le> p * real_of_int r"
    by (simp add: pos_divide_le_eq)
  then have "real_of_int (n - 1) * real_of_int c \<le> p * real_of_int r"
    by simp
  with cs have "real_of_int (n - 1) \<le> p * real_of_int r / real_of_int c"
    by (simp add: pos_le_divide_eq)
  then have "real_of_int (n - 1) \<le> p / (real_of_int c / real_of_int r)"
    by simp
  then have "n - 1 \<le> \<lfloor>p / (real_of_int c / real_of_int r)\<rfloor>"
    by (simp add: le_floor_iff)
  then show ?thesis by linarith
qed

lemma start_stream_preserves:
  "input_config (snd (start_stream dr s)) = input_config s \<and> vad (snd (start_stream dr s)) = vad s"
  by (auto simp: start_stream_def start_stream_except_def stop_stream_def driver_call_def Let_def
      split: option.splits sum.splits if_splits)

lemma erase_initial_log:
  "erase (initial_log d w) =
     \<lparr> frames = [], speech_detected = \<not> w, silence_frames = 0, detector = d \<rparr>"
  by (simp add: erase_def initial_log_def)

lemma capture_manual_log:
  "capture_manual s mf w ps =
     (case capture_manual_loop_log (input_config s) mf (initial_log (vad s) w) ps of
        None \<Rightarrow> None
      | Some l \<Rightarrow> Some (Inr (join_frames (map fst (entries l))), s\<lparr>vad := detector_l l\<rparr>))"
proof -
  have e: "capture_manual_loop (input_config s) mf
             \<lparr> frames = [], speech_detected = \<not> w, silence_frames = 0, detector = vad s \<rparr> ps
           = map_option erase
               (capture_manual_loop_log (input_config s) mf (initial_log (vad s) w) ps)"
    using capture_manual_loop_erase[of "input_config s" mf "initial_log (vad s) w" ps]
    unfolding erase_initial_log .
  show ?thesis
    by (cases "capture_manual_loop_log (input_config s) mf (initial_log (vad s) w) ps")
      (simp_all add: capture_manual_def e erase_def)
qed

text \<open>
  C4, as amended. In manual mode, with \<^verbatim>\<open>speech_pad_end\<close> not negative and a positive
  chunk size and sample rate, every utterance \<^verbatim>\<open>capture_audio\<close> returns ends in at most
  \<open>floor(speech_pad_end / frame_duration) + 1\<close> frames that were classified as Silence:
  the loop stops at the first pass in which the silent run, times the frame duration,
  exceeds \<^verbatim>\<open>speech_pad_end\<close>.
\<close>

theorem manual_trailing_silence_bound:
  assumes manual: "\<not> vad_enabled (input_config s)"
    and pe: "0 \<le> speech_pad_end (input_config s)"
    and cs: "0 < chunk_size (input_config s)"
    and sr: "0 < sample_rate (input_config s)"
    and ret: "capture_audio env s duration w = Some (Inr (Some utterance), s')"
  shows "\<exists>mf l. max_frames_of (input_config s) duration = Inr mf
           \<and> capture_manual_loop_log (input_config s) mf (initial_log (vad s) w) (passes env)
               = Some l
           \<and> utterance = concat (map fst (entries l))
           \<and> int (trailing_silence (map snd (entries l)))
               \<le> \<lfloor>speech_pad_end (input_config s) / frame_duration (input_config s)\<rfloor> + 1"
proof -
  let ?cfg = "input_config s"
  obtain r s0 where st: "(if stream s = None then start_stream (drv env) s else (Inr True, s)) = (r, s0)"
    by (cases "if stream s = None then start_stream (drv env) s else (Inr True, s)")
  have keep: "input_config s0 = ?cfg \<and> vad s0 = vad s"
    using st start_stream_preserves[of "drv env" s] by (auto split: if_splits)
  from ret st have r: "r = Inr True"
    by (cases r) (auto simp: capture_audio_def split: bool.splits)
  from ret st r keep obtain mf where mf: "max_frames_of ?cfg duration = Inr mf"
    by (cases "max_frames_of ?cfg duration") (auto simp: capture_audio_def Let_def)
  from ret st r keep mf manual
  have cm: "capture_manual (s0\<lparr>buffer := []\<rparr>) mf w (passes env) = Some (Inr (Some utterance), s')"
    by (simp add: capture_audio_def Let_def)
  then obtain l where l: "capture_manual_loop_log ?cfg mf (initial_log (vad s) w) (passes env) = Some l"
    and u: "join_frames (map fst (entries l)) = Some utterance"
    using keep by (auto simp: capture_manual_log split: option.splits)
  from u have u': "utterance = concat (map fst (entries l))"
    by (simp add: join_frames_def split: if_splits)
  have inv: "silence_frames_l l = int (trailing_silence (map snd (entries l)))
       \<and> real_of_int ((silence_frames_l l - 1) * chunk_size ?cfg) / real_of_int (sample_rate ?cfg)
               \<le> speech_pad_end ?cfg"
    using pe by (intro capture_manual_loop_log_inv[OF cs sr pe _ _ _ l])
      (simp_all add: initial_log_def trailing_silence_Nil)
  then have le: "real_of_int ((silence_frames_l l - 1) * chunk_size ?cfg)
                   / real_of_int (sample_rate ?cfg) \<le> speech_pad_end ?cfg" ..
  from silence_frames_bound[OF cs sr le]
  have "silence_frames_l l \<le> \<lfloor>speech_pad_end ?cfg / frame_duration ?cfg\<rfloor> + 1"
    unfolding frame_duration_def .
  with inv have "int (trailing_silence (map snd (entries l)))
               \<le> \<lfloor>speech_pad_end ?cfg / frame_duration ?cfg\<rfloor> + 1"
    by simp
  with mf l u' show ?thesis by blast
qed

subsection \<open>The frame limit in manual mode\<close>

lemma manual_body_detected:
  assumes "is_speech d x None = Inr (b, d')" and "sample_rate cfg \<noteq> 0"
  shows "manual_body cfg mf
           \<lparr> frames = acc, speech_detected = True, silence_frames = sf, detector = d \<rparr> (Inr x) =
         (let sf' = (if \<not> b then sf + 1 else 0);
              st = \<lparr> frames = acc @ [x], speech_detected = True, silence_frames = sf',
                     detector = d' \<rparr>
          in if real_of_int (sf' * chunk_size cfg) / real_of_int (sample_rate cfg)
                  > speech_pad_end cfg then (Break, st)
             else if frame_limit_reached mf (Suc (length acc)) then (Break, st)
             else (Continue, st))"
  using assms by (simp add: manual_body_def silence_secs_def Let_def)

lemma silence_run_trailing:
  "foldl (\<lambda>n b. if b then 0 else n + 1) (0::int) bs = int (trailing_silence bs)"
  by (induction bs rule: rev_induct) (simp_all add: trailing_silence_Nil trailing_silence_snoc)

lemma length_classify_all: "length (fst (classify_all d fs)) = length fs"
proof (induction fs arbitrary: d)
  case Nil
  then show ?case by simp
next
  case (Cons f fs)
  obtain b d' where "is_speech d f None = Inr (b, d')"
    using is_speech_total by blast
  with Cons.IH[of d'] show ?case
    by (auto split: prod.splits)
qed

lemma capture_manual_loop_exact:
  assumes sr: "sample_rate cfg \<noteq> 0" and m: "0 < m"
  shows "length acc + length datas = nat m \<Longrightarrow> datas \<noteq> [] \<Longrightarrow> length ts = length datas \<Longrightarrow>
         \<forall>t\<in>set ts. t \<le> timeout cfg \<Longrightarrow>
         \<forall>j\<in>{1..<length datas}.
            real_of_int (foldl (\<lambda>n b. if b then 0 else n + 1) sf
                           (take j (fst (classify_all d datas))) * chunk_size cfg)
              / real_of_int (sample_rate cfg) \<le> speech_pad_end cfg \<Longrightarrow>
         \<exists>st. capture_manual_loop cfg (Some m)
                \<lparr> frames = acc, speech_detected = True, silence_frames = sf, detector = d \<rparr>
                (zip ts (map Inr datas) @ rest) = Some st
              \<and> frames st = acc @ datas \<and> detector st = snd (classify_all d datas)"
proof (induction datas arbitrary: acc sf d ts)
  case Nil
  then show ?case by simp
next
  case (Cons x xs)
  obtain t ts' where ts: "ts = t # ts'"
    using Cons.prems(3) by (cases ts) simp_all
  obtain b d' where sp: "is_speech d x None = Inr (b, d')"
    using is_speech_total by blast
  obtain bs d'' where ca: "classify_all d' xs = (bs, d'')"
    by (cases "classify_all d' xs")
  let ?sf = "if \<not> b then sf + 1 else 0"
  let ?st = "\<lparr> frames = acc @ [x], speech_detected = True, silence_frames = ?sf,
                detector = d' \<rparr>"
  have t: "\<not> t > timeout cfg"
    using Cons.prems(4) ts by simp
  show ?case
  proof (cases "xs = []")
    case True
    with Cons.prems(1) have "frame_limit_reached (Some m) (Suc (length acc))"
      using m by (simp add: frame_limit_reached_def)
    then have "fst (manual_body cfg (Some m)
           \<lparr> frames = acc, speech_detected = True, silence_frames = sf, detector = d \<rparr> (Inr x)) = Break
         \<and> snd (manual_body cfg (Some m)
           \<lparr> frames = acc, speech_detected = True, silence_frames = sf, detector = d \<rparr> (Inr x)) = ?st"
      by (simp add: manual_body_detected[OF sp sr] Let_def)
    then show ?thesis
      using True t ts sp
      by (cases "manual_body cfg (Some m)
           \<lparr> frames = acc, speech_detected = True, silence_frames = sf, detector = d \<rparr> (Inr x)")
        simp
  next
    case False
    then have one: "1 \<in> {1..<length (x # xs)}"
      by (cases xs) simp_all
    have "take 1 (fst (classify_all d (x # xs))) = [b]"
      using sp ca by simp
    moreover from Cons.prems(5) one
    have "real_of_int (foldl (\<lambda>n b. if b then 0 else n + 1) sf
                           (take 1 (fst (classify_all d (x # xs)))) * chunk_size cfg)
              / real_of_int (sample_rate cfg) \<le> speech_pad_end cfg"
      by blast
    ultimately
    have quiet: "\<not> real_of_int (?sf * chunk_size cfg) / real_of_int (sample_rate cfg)
                    > speech_pad_end cfg"
      by (cases b) (simp_all only: foldl_Cons foldl_Nil not_less if_True if_False not_True_eq_False not_False_eq_True)
    from False Cons.prems(1) have "\<not> frame_limit_reached (Some m) (Suc (length acc))"
      by (cases xs) (auto simp: frame_limit_reached_def)
    with quiet have body: "manual_body cfg (Some m)
           \<lparr> frames = acc, speech_detected = True, silence_frames = sf, detector = d \<rparr> (Inr x)
         = (Continue, ?st)"
      by (simp add: manual_body_detected[OF sp sr] Let_def)
    have len: "length (acc @ [x]) + length xs = nat m"
      using Cons.prems(1) by simp
    have lts: "length ts' = length xs"
      using Cons.prems(3) ts by simp
    have tms: "\<forall>t\<in>set ts'. t \<le> timeout cfg"
      using Cons.prems(4) ts by simp
    have runs: "\<forall>j\<in>{1..<length xs}.
            real_of_int (foldl (\<lambda>n b. if b then 0 else n + 1) ?sf
                           (take j (fst (classify_all d' xs))) * chunk_size cfg)
              / real_of_int (sample_rate cfg) \<le> speech_pad_end cfg"
    proof
      fix j assume j: "j \<in> {1..<length xs}"
      then have "Suc j \<in> {1..<length (x # xs)}" by simp
      with Cons.prems(5)
      have "real_of_int (foldl (\<lambda>n b. if b then 0 else n + 1) sf
                           (take (Suc j) (fst (classify_all d (x # xs)))) * chunk_size cfg)
              / real_of_int (sample_rate cfg) \<le> speech_pad_end cfg"
        by blast
      then show "real_of_int (foldl (\<lambda>n b. if b then 0 else n + 1) ?sf
                           (take j (fst (classify_all d' xs))) * chunk_size cfg)
              / real_of_int (sample_rate cfg) \<le> speech_pad_end cfg"
        using sp ca by (cases b) simp_all
    qed
    from Cons.IH[OF len False lts tms runs]
    obtain st where "capture_manual_loop cfg (Some m) ?st (zip ts' (map Inr xs) @ rest) = Some st"
      and "frames st = (acc @ [x]) @ xs" and "detector st = snd (classify_all d' xs)"
      by blast
    then show ?thesis
      using t ts body sp ca by simp
  qed
qed

text \<open>
  C3, as amended. Manual mode on an open stream, \<^verbatim>\<open>wait_for_speech=False\<close>, and a
  duration from which \<^verbatim>\<open>capture_audio\<close> derives the frame limit \<open>m \<ge> 1\<close>. When the
  device supplies \<open>m\<close> frames before the timeout, and the run of Silence frames at the
  end of the frames read so far never lasts longer than \<^verbatim>\<open>speech_pad_end\<close> before the
  limit is reached, the result is exactly these \<open>m\<close> frames.
\<close>

theorem capture_audio_frame_limit:
  assumes opened: "stream s = Some h"
    and manual: "\<not> vad_enabled (input_config s)"
    and sr: "sample_rate (input_config s) \<noteq> 0"
    and mf: "max_frames_of (input_config s) (Some dur) = Inr (Some m)"
    and m: "0 < m"
    and len: "length datas = nat m" "length ts = nat m"
    and tms: "\<forall>t\<in>set ts. t \<le> timeout (input_config s)"
    and reads: "passes env = zip ts (map Inr datas) @ rest"
    and quiet: "\<forall>j\<in>{1..<nat m}.
        real_of_int (int (trailing_silence (take j (fst (classify_all (vad s) datas))))
                       * chunk_size (input_config s))
          / real_of_int (sample_rate (input_config s)) \<le> speech_pad_end (input_config s)"
  shows "capture_audio env s (Some dur) False
           = Some (Inr (Some (concat datas)),
                   s\<lparr>buffer := [], vad := snd (classify_all (vad s) datas)\<rparr>)"
proof -
  let ?cfg = "input_config s"
  have ne: "datas \<noteq> []"
    using len(1) m by auto
  have runs: "\<forall>j\<in>{1..<length datas}.
      real_of_int (foldl (\<lambda>n b. if b then 0 else n + 1) 0
                     (take j (fst (classify_all (vad s) datas))) * chunk_size ?cfg)
        / real_of_int (sample_rate ?cfg) \<le> speech_pad_end ?cfg"
    using quiet len(1) by (simp only: silence_run_trailing)
  from capture_manual_loop_exact[OF sr m, of "[]" datas ts 0 "vad s" rest] ne len tms runs
  obtain st where loop: "capture_manual_loop ?cfg (Some m)
        \<lparr> frames = [], speech_detected = True, silence_frames = 0, detector = vad s \<rparr>
        (passes env) = Some st"
    and fr: "frames st = datas" and dt: "detector st = snd (classify_all (vad s) datas)"
    unfolding reads by auto
  have "capture_manual (s\<lparr>buffer := []\<rparr>) (Some m) False (passes env)
          = Some (Inr (Some (concat datas)),
                  s\<lparr>buffer := [], vad := snd (classify_all (vad s) datas)\<rparr>)"
    using loop fr dt ne by (simp add: capture_manual_def join_frames_def)
  then show ?thesis
    using opened manual mf by (simp add: capture_audio_def Let_def)
qed

subsection \<open>Executions of the manual loop\<close>

text \<open>The equations that evaluate the loops on the concrete inputs.\<close>

lemmas eval_defs =
  manual_body_def manual_body_log_def pad_frames_def py_int_def slice_from_def
  silence_secs_def frame_limit_reached_def join_frames_def is_speech_constant_frame
  update_energy_threshold_def word_cat_eq sqrt_10000 Let_def manual_config_def
  default_config_def started_session_def fresh_session_def AudioInput_def
  energy_detector_def VoiceActivityDetector_def initial_log_def

lemma manual_capture_example:
  "map_option fst (capture_audio \<lparr> drv = good_driver, events = [], passes = onset_passes \<rparr>
        (fresh_session manual_config) None True)
     = Some (Inr (Some (constant_frame 1024 100 0 @ constant_frame 1024 0 0
                        @ constant_frame 1024 0 0 @ constant_frame 1024 0 0
                        @ constant_frame 1024 0 0)))"
proof -
  have b: "capture_audio \<lparr> drv = good_driver, events = [], passes = onset_passes \<rparr>
             (fresh_session manual_config) None True
           = capture_manual (started_session manual_config) None True onset_passes"
    by (simp add: capture_audio_fresh max_frames_of_def manual_config_def)
  have c: "map_option fst (capture_manual (started_session manual_config) None True onset_passes)
      = Some (Inr (Some (constant_frame 1024 100 0 @ constant_frame 1024 0 0
                        @ constant_frame 1024 0 0 @ constant_frame 1024 0 0
                        @ constant_frame 1024 0 0)))"
    by (simp add: capture_manual_def onset_passes_def eval_defs)
  from b c show ?thesis by simp
qed

lemma manual_log_example:
  "map_option entries (capture_manual_loop_log manual_config None
        (initial_log (energy_detector manual_config) True) onset_passes)
     = Some [(constant_frame 1024 100 0, True), (constant_frame 1024 0 0, False),
             (constant_frame 1024 0 0, False), (constant_frame 1024 0 0, False),
             (constant_frame 1024 0 0, False)]"
  by (simp add: onset_passes_def eval_defs)

text \<open>
  C1 (a defect of the code). Manual mode, floor 50, lead-in of one frame
  (\<open>int(0.1 * 16000 / 1024) = 1\<close>). The device gives a silent frame, a loud frame and four
  silent frames. Speech starts at the second frame, and the result begins with that frame:
  the silent frame before it is not part of the result, because \<^verbatim>\<open>frames\<close> is still
  empty when \<^verbatim>\<open>frames[-1:]\<close> is taken from it.
\<close>

theorem manual_capture_no_lead_in:
  "pad_frames manual_config = Inr 1
   \<and> onset_passes ! 0 = (64 / 1000, Inr (constant_frame 1024 0 0))
   \<and> onset_passes ! 1 = (128 / 1000, Inr (constant_frame 1024 100 0))
   \<and> fst (classify_all (energy_detector manual_config)
             [constant_frame 1024 0 0, constant_frame 1024 100 0]) = [False, True]
   \<and> map_option fst (capture_audio \<lparr> drv = good_driver, events = [], passes = onset_passes \<rparr>
        (fresh_session manual_config) None True)
     = Some (Inr (Some (constant_frame 1024 100 0 @ constant_frame 1024 0 0
                        @ constant_frame 1024 0 0 @ constant_frame 1024 0 0
                        @ constant_frame 1024 0 0)))"
proof -
  have a: "pad_frames manual_config = Inr 1"
    by (simp add: pad_frames_def manual_config_def default_config_def py_int_def)
  have b: "fst (classify_all (energy_detector manual_config)
             [constant_frame 1024 0 0, constant_frame 1024 100 0]) = [False, True]"
    by (simp add: eval_defs)
  from a b manual_capture_example show ?thesis
    by (simp add: onset_passes_def)
qed

text \<open>
  The execution of \<open>manual_capture_example\<close>: the bound is \<open>floor(0.2 / 0.064) + 1 = 4\<close>
  and the utterance ends in four Silence frames.
\<close>

theorem manual_trailing_silence_bound_witness:
  "\<not> vad_enabled (input_config (fresh_session manual_config))
   \<and> 0 \<le> speech_pad_end (input_config (fresh_session manual_config))
   \<and> 0 < chunk_size (input_config (fresh_session manual_config))
   \<and> 0 < sample_rate (input_config (fresh_session manual_config))
   \<and> map_option fst (capture_audio \<lparr> drv = good_driver, events = [], passes = onset_passes \<rparr>
        (fresh_session manual_config) None True)
       = Some (Inr (Some (constant_frame 1024 100 0 @ constant_frame 1024 0 0
                        @ constant_frame 1024 0 0 @ constant_frame 1024 0 0
                        @ constant_frame 1024 0 0)))
   \<and> \<lfloor>speech_pad_end manual_config / frame_duration manual_config\<rfloor> + 1 = 4
   \<and> (\<exists>l. capture_manual_loop_log manual_config None
               (initial_log (energy_detector manual_config) True) onset_passes = Some l
          \<and> map snd (entries l) = [True, False, False, False, False]
          \<and> int (trailing_silence (map snd (entries l))) \<le> 4)"
proof -
  let ?s = "fresh_session manual_config"
  let ?env = "\<lparr> drv = good_driver, events = [], passes = onset_passes \<rparr>"
  let ?u = "constant_frame 1024 100 0 @ constant_frame 1024 0 0
                        @ constant_frame 1024 0 0 @ constant_frame 1024 0 0
                        @ constant_frame 1024 0 0"
  have cfg: "input_config ?s = manual_config" "vad ?s = energy_detector manual_config"
    by (simp_all add: fresh_session_def AudioInput_def)
  have a: "\<not> vad_enabled (input_config ?s)"
    and b: "0 \<le> speech_pad_end (input_config ?s)"
    and c: "0 < chunk_size (input_config ?s)"
    and d: "0 < sample_rate (input_config ?s)"
    unfolding cfg by (simp_all add: manual_config_def default_config_def)
  have bound: "\<lfloor>speech_pad_end manual_config / frame_duration manual_config\<rfloor> + 1 = 4"
    by (simp add: frame_duration_def manual_config_def default_config_def)
  obtain s' where ret: "capture_audio ?env ?s None True = Some (Inr (Some ?u), s')"
    using manual_capture_example by (cases "capture_audio ?env ?s None True") auto
  from manual_trailing_silence_bound[OF a b c d ret]
  obtain mf l where mf: "max_frames_of manual_config None = Inr mf"
    and l: "capture_manual_loop_log manual_config mf
              (initial_log (energy_detector manual_config) True) onset_passes = Some l"
    and le: "int (trailing_silence (map snd (entries l)))
               \<le> \<lfloor>speech_pad_end manual_config / frame_duration manual_config\<rfloor> + 1"
    unfolding cfg by auto
  from mf have "mf = None" by (simp add: max_frames_of_def)
  with l manual_log_example have "map snd (entries l) = [True, False, False, False, False]"
    by auto
  with l le bound \<open>mf = None\<close> a b c d manual_capture_example show ?thesis
    by auto
qed

text \<open>
  C4 as stated fails when \<^verbatim>\<open>speech_pad_end\<close> is a whole number of frames. With 0.25 s
  and frames of 0.0625 s the bound of the claim is \<open>ceil(0.25 / 0.0625) = 4\<close>; after a
  loud frame the loop stops at the fifth silent frame, the first at which
  \<open>5 * 0.0625 > 0.25\<close>, and the utterance ends in five Silence frames.
\<close>

theorem trailing_silence_ceil_counterexample:
  "map_option fst (capture_audio \<lparr> drv = good_driver, events = [], passes = exact_passes \<rparr>
        (fresh_session exact_config) None True)
     = Some (Inr (Some (constant_frame 1000 100 0 @ constant_frame 1000 0 0
                        @ constant_frame 1000 0 0 @ constant_frame 1000 0 0
                        @ constant_frame 1000 0 0 @ constant_frame 1000 0 0)))
   \<and> map_option (map snd \<circ> entries)
         (capture_manual_loop_log exact_config None
            (initial_log (energy_detector exact_config) True) exact_passes)
       = Some [True, False, False, False, False, False]
   \<and> trailing_silence [True, False, False, False, False, False] = 5
   \<and> \<lceil>speech_pad_end exact_config / frame_duration exact_config\<rceil> = 4"
proof -
  have b: "capture_audio \<lparr> drv = good_driver, events = [], passes = exact_passes \<rparr>
             (fresh_session exact_config) None True
           = capture_manual (started_session exact_config) None True exact_passes"
    by (simp add: capture_audio_fresh max_frames_of_def exact_config_def)
  have c: "map_option fst (capture_manual (started_session exact_config) None True exact_passes)
     = Some (Inr (Some (constant_frame 1000 100 0 @ constant_frame 1000 0 0
                        @ constant_frame 1000 0 0 @ constant_frame 1000 0 0
                        @ constant_frame 1000 0 0 @ constant_frame 1000 0 0)))"
    by (simp add: capture_manual_def exact_passes_def exact_config_def eval_defs)
  have d: "map_option (map snd \<circ> entries)
         (capture_manual_loop_log exact_config None
            (initial_log (energy_detector exact_config) True) exact_passes)
       = Some [True, False, False, False, False, False]"
    by (simp add: exact_passes_def exact_config_def eval_defs)
  have e: "trailing_silence [True, False, False, False, False, False] = 5"
    by (simp add: trailing_silence_def)
  have f: "\<lceil>speech_pad_end exact_config / frame_duration exact_config\<rceil> = 4"
    by (simp add: frame_duration_def exact_config_def default_config_def)
  from b c d e f show ?thesis by simp
qed

text \<open>
  C3 as stated fails on silent frames. For 0.512 s the claim gives
  \<open>0.512 * 16000 / 1024 = 8\<close> frames; the device supplies eight silent frames, and the
  result has four: without \<^verbatim>\<open>wait_for_speech\<close> the loop starts as if speech had been
  detected, and the fourth silent frame ends it (\<open>4 * 0.064 > 0.2\<close>).
\<close>

theorem duration_frames_counterexample:
  "(512 / 1000) * real_of_int (sample_rate manual_config) / real_of_int (chunk_size manual_config)
     = 8
   \<and> fst (classify_all (energy_detector manual_config) (replicate 8 (constant_frame 1024 0 0)))
       = replicate 8 False
   \<and> max_frames_of manual_config (Some (512 / 1000)) = Inr (Some 16)
   \<and> map_option fst (capture_audio \<lparr> drv = good_driver, events = [], passes = silent_passes \<rparr>
        (fresh_session manual_config) (Some (512 / 1000)) False)
     = Some (Inr (Some (constant_frame 1024 0 0 @ constant_frame 1024 0 0
                        @ constant_frame 1024 0 0 @ constant_frame 1024 0 0)))"
proof -
  have a: "(512 / 1000) * real_of_int (sample_rate manual_config)
             / real_of_int (chunk_size manual_config) = 8"
    by (simp add: manual_config_def default_config_def)
  have l: "fst (classify_all (energy_detector manual_config) (replicate 8 (constant_frame 1024 0 0)))
       = replicate 8 False"
    by (simp add: numeral_eq_Suc eval_defs)
  have m: "max_frames_of manual_config (Some (512 / 1000)) = Inr (Some 16)"
    by (simp add: max_frames_of_def manual_config_def default_config_def py_int_def Let_def)
  have b: "capture_audio \<lparr> drv = good_driver, events = [], passes = silent_passes \<rparr>
             (fresh_session manual_config) (Some (512 / 1000)) False
           = capture_manual (started_session manual_config) (Some 16) False silent_passes"
    by (simp add: capture_audio_fresh max_frames_of_def manual_config_def default_config_def
        py_int_def Let_def)
  have c: "map_option fst (capture_manual (started_session manual_config) (Some 16) False
             silent_passes)
     = Some (Inr (Some (constant_frame 1024 0 0 @ constant_frame 1024 0 0
                        @ constant_frame 1024 0 0 @ constant_frame 1024 0 0)))"
    by (simp add: capture_manual_def silent_passes_def eval_defs)
  from a l m b c show ?thesis by simp
qed

text \<open>
  A duration of 0.1 s, for which the limit is three frames: a silent, a loud and a silent
  frame are returned as they were read.
\<close>

theorem capture_audio_frame_limit_witness:
  "stream (started_session manual_config) = Some 7
   \<and> \<not> vad_enabled (input_config (started_session manual_config))
   \<and> max_frames_of (input_config (started_session manual_config)) (Some (1 / 10)) = Inr (Some 3)
   \<and> fst (classify_all (vad (started_session manual_config))
             [constant_frame 1024 0 0, constant_frame 1024 100 0, constant_frame 1024 0 0])
       = [False, True, False]
   \<and> map_option fst (capture_audio
         \<lparr> drv = good_driver, events = [],
           passes = zip [64 / 1000, 128 / 1000, 192 / 1000]
                      (map Inr [constant_frame 1024 0 0, constant_frame 1024 100 0,
                                constant_frame 1024 0 0]) @ [] \<rparr>
         (started_session manual_config) (Some (1 / 10)) False)
       = Some (Inr (Some (concat [constant_frame 1024 0 0, constant_frame 1024 100 0,
                                  constant_frame 1024 0 0])))"
proof -
  let ?s = "started_session manual_config"
  let ?datas = "[constant_frame 1024 0 0, constant_frame 1024 100 0, constant_frame 1024 0 0]"
  let ?ts = "[64 / 1000, 128 / 1000, 192 / 1000 :: real]"
  let ?env = "\<lparr> drv = good_driver, events = [],
                passes = zip ?ts (map Inr ?datas) @ [] \<rparr>"
  have cfg: "input_config ?s = manual_config" "vad ?s = energy_detector manual_config"
    by (simp_all add: started_session_def fresh_session_def AudioInput_def)
  have opened: "stream ?s = Some 7"
    by (simp add: started_session_def)
  have manual: "\<not> vad_enabled (input_config ?s)"
    and sr: "sample_rate (input_config ?s) \<noteq> 0"
    unfolding cfg by (simp_all add: manual_config_def default_config_def)
  have mf: "max_frames_of (input_config ?s) (Some (1 / 10)) = Inr (Some 3)"
    unfolding cfg
    by (simp add: max_frames_of_def manual_config_def default_config_def py_int_def Let_def)
  have labels': "fst (classify_all (energy_detector manual_config) ?datas) = [False, True, False]"
    by (simp add: eval_defs)
  then have labels: "fst (classify_all (vad ?s) ?datas) = [False, True, False]"
    unfolding cfg .
  have len: "length ?datas = nat 3" "length ?ts = nat 3"
    by simp_all
  have tms: "\<forall>t\<in>set ?ts. t \<le> timeout (input_config ?s)"
    unfolding cfg by (simp add: manual_config_def default_config_def)
  have quiet: "\<forall>j\<in>{1..<nat 3}.
        real_of_int (int (trailing_silence (take j (fst (classify_all (vad ?s) ?datas))))
                       * chunk_size (input_config ?s))
          / real_of_int (sample_rate (input_config ?s)) \<le> speech_pad_end (input_config ?s)"
  proof
    fix j :: nat assume "j \<in> {1..<nat 3}"
    then have "j = 1 \<or> j = 2" by auto
    then show "real_of_int (int (trailing_silence (take j (fst (classify_all (vad ?s) ?datas))))
                       * chunk_size (input_config ?s))
          / real_of_int (sample_rate (input_config ?s)) \<le> speech_pad_end (input_config ?s)"
      unfolding cfg labels'
      by (auto simp: trailing_silence_def manual_config_def default_config_def)
  qed
  have reads: "passes ?env = zip ?ts (map Inr ?datas) @ []"
    by simp
  from capture_audio_frame_limit[OF opened manual sr mf _ len tms reads quiet]
  have "capture_audio ?env ?s (Some (1 / 10)) False
           = Some (Inr (Some (concat ?datas)),
                   ?s\<lparr>buffer := [], vad := snd (classify_all (vad ?s) ?datas)\<rparr>)"
    by simp
  with opened manual mf labels show ?thesis
    by simp
qed

subsection \<open>The computed energy and the RMS\<close>

lemma sint_square_int16:
  fixes w :: "16 word"
  assumes "\<bar>sint w\<bar> \<le> 181"
  shows "sint (w * w) = sint w * sint w"
proof -
  have "sint w * sint w = \<bar>sint w\<bar> * \<bar>sint w\<bar>"
    by simp
  also have "\<dots> \<le> 181 * 181"
    using assms by (intro mult_mono) simp_all
  finally have up: "sint w * sint w < 2 ^ 15" by simp
  have lo: "- (2 ^ 15) \<le> sint w * sint w"
    by (rule order_trans[of _ 0]) simp_all
  show ?thesis
    using signed_take_bit_int_eq_self[OF lo up] by (simp add: sint_word_mult)
qed

lemma sum_squares_int16:
  fixes ws :: "16 word list"
  assumes "\<forall>w\<in>set ws. \<bar>sint w\<bar> \<le> 181"
  shows "sum_list (map sint (np_square_int16 ws)) = sum_list (map (\<lambda>x. x * x) (map sint ws))"
  using assms by (induction ws) (simp_all add: np_square_int16_def sint_square_int16)

lemma sum_squares_nonneg: "0 \<le> sum_list (map (\<lambda>x. x * x) (xs :: int list))"
  by (induction xs) simp_all

lemma int16_samples_nonempty: "2 \<le> length f \<Longrightarrow> int16_samples f \<noteq> []"
  by (cases f rule: int16_samples.cases) simp_all

text \<open>
  In the \<^verbatim>\<open>int16\<close> format the computed energy is the RMS of the frame as long as no
  square leaves the \<^verbatim>\<open>int16\<close> range, that is for samples of magnitude up to 181.
\<close>

lemma frame_energy_rms:
  assumes "format (config d) \<noteq> ''float32''" and "length f mod 2 = 0" and "f \<noteq> []"
    and "\<forall>w\<in>set (int16_samples f). \<bar>sint w\<bar> \<le> 181"
  shows "frame_energy d f = Inr (Fin (rms (map sint (int16_samples f))))"
proof -
  from assms(2,3) have "2 \<le> length f"
    by (cases f) (auto simp: Suc_le_eq)
  then have ne: "int16_samples f \<noteq> []"
    by (rule int16_samples_nonempty)
  have "0 \<le> real_of_int (sum_list (map (\<lambda>x. x * x) (map sint (int16_samples f))))
              / real (length (int16_samples f))"
    by (intro divide_nonneg_nonneg) (simp_all only: of_int_0_le_iff sum_squares_nonneg of_nat_0_le_iff)
  then show ?thesis
    using assms(1,2) ne sum_squares_int16[OF assms(4)]
    by (simp add: frame_energy_def mean_square_def frombuffer_int16_def np_mean_int16_def rms_def
        np_square_int16_def not_less)
qed

text \<open>
  Beyond that \<^verbatim>\<open>np.square\<close> wraps: a frame of samples of value 200 has the wrapped
  squares -25536, a negative mean and the energy \<^verbatim>\<open>nan\<close>.
\<close>

lemma frame_energy_overflow:
  "frame_energy (energy_detector default_config) (constant_frame 1024 200 0) = Inr NaN"
  by (simp add: frame_energy_constant_frame energy_detector_def VoiceActivityDetector_def
      default_config_def word_cat_eq)

end
